theory Spec2Isabelle
  imports Complex_Main
begin

section \<open>Values exchanged with the ONVIF library\<close>

text \<open>
  The two programs, \<^verbatim>\<open>ptz_controller.py\<close> (text menu) and
  \<^verbatim>\<open>ptz_control_with_keyboard.py\<close> (keyboard), drive one camera through the
  \<^verbatim>\<open>onvif\<close> library. Python floats are read as real numbers: the only float
  operations of the programs are comparisons against the constants \<open>-1.0\<close> and \<open>1.0\<close> and
  one multiplication, and rounding and NaN are left out of the model.
\<close>

type_synonym token = string

text \<open>The dictionary assigned to \<^verbatim>\<open>request_continuous.Velocity\<close>:
  \<^verbatim>\<open>{"PanTilt": {"x": .., "y": ..}, "Zoom": {"x": ..}}\<close>.\<close>

record velocity =
  PanTilt_x :: real
  PanTilt_y :: real
  Zoom_x :: real

text \<open>The four request objects made by \<^verbatim>\<open>ptz.create_type\<close>. A field that has not
  been assigned yet is \<open>None\<close>.\<close>

record continuous_move_request =
  cm_ProfileToken :: token
  cm_Velocity :: "velocity option"

record stop_request =
  st_ProfileToken :: token
  st_PanTilt :: "bool option"
  st_Zoom :: "bool option"

record goto_preset_request =
  gp_ProfileToken :: token
  gp_PresetToken :: "string option"

record set_preset_request =
  sp_ProfileToken :: token
  sp_PresetName :: "string option"

text \<open>A media profile: its token, and the token of its PTZ configuration when the profile
  has one (\<^verbatim>\<open>profile.PTZConfiguration\<close> is \<^verbatim>\<open>None\<close> otherwise).\<close>

record media_profile =
  token :: token
  PTZConfiguration_token :: "token option"

text \<open>An attribute of a response object, as \<^verbatim>\<open>hasattr\<close> and a test against
  \<^verbatim>\<open>None\<close> see it.\<close>

datatype 'a attr = Absent | PyNone | Val 'a

fun hasattr :: "'a attr \<Rightarrow> bool" where
  "hasattr Absent = False"
| "hasattr PyNone = True"
| "hasattr (Val x) = True"

text \<open>A range as the ONVIF schema declares it (\<^verbatim>\<open>FloatRange\<close>): \<^verbatim>\<open>Min\<close> and \<^verbatim>\<open>Max\<close> are
  floats. A response whose \<^verbatim>\<open>Max\<close> is \<^verbatim>\<open>None\<close> or not a number would be assigned to the
  limit as it is; such a response is outside the model, and what is proved below about the
  limits is proved for responses whose ranges carry numbers.\<close>

record float_range =
  range_Min :: real
  range_Max :: real

record space2d =
  XRange :: "float_range attr"
  YRange :: "float_range attr"

record space1d =
  zoom_XRange :: "float_range attr"

record spaces =
  PanTiltVelocitySpace :: "space2d list attr"
  ZoomVelocitySpace :: "space1d list attr"

record cfg_options =
  Spaces :: "spaces attr"

text \<open>The response to \<^verbatim>\<open>SetPreset\<close>: an object whose attribute \<^verbatim>\<open>PresetToken\<close> may
  be missing, be \<^verbatim>\<open>None\<close>, or hold the token.\<close>

record set_preset_response =
  PresetToken :: "string attr"

record preset =
  pr_token :: string
  pr_Name :: "string option"

section \<open>Exceptions, calls and the camera\<close>

datatype exn =
    Fault
  | AttributeError
  | RuntimeError string
  | EOFError
  | KeyboardInterrupt
  | SystemExit int

text \<open>\<^verbatim>\<open>except Exception\<close> catches every exception but \<^verbatim>\<open>KeyboardInterrupt\<close>
  and \<^verbatim>\<open>SystemExit\<close>.\<close>

fun is_Exception :: "exn \<Rightarrow> bool" where
  "is_Exception KeyboardInterrupt = False"
| "is_Exception (SystemExit n) = False"
| "is_Exception e = True"

text \<open>Every call that leaves the program: the calls into the \<^verbatim>\<open>onvif\<close> library,
  each with the request it carries at the time of the call, and \<^verbatim>\<open>time.sleep\<close>.\<close>

datatype call =
    ONVIFCamera string int string string "string option"
  | CreateMediaService
  | CreatePtzService
  | GetProfiles
  | CreateType string
  | GetConfigurationOptions token
  | ContinuousMove continuous_move_request
  | Stop stop_request
  | GotoPreset goto_preset_request
  | SetPreset set_preset_request
  | GetPresets token
  | Sleep real

text \<open>
  The camera and its library, as far as the programs observe them. \<open>raises\<close> says, from
  the calls made so far, whether the next call raises and what (for \<open>Sleep\<close>: an
  interrupt arriving during the wait); the other fields are what the calls return.
\<close>

record camera =
  raises :: "call list \<Rightarrow> call \<Rightarrow> exn option"
  profiles_reply :: "media_profile list"
  options_reply :: "cfg_options option"
  set_preset_reply :: "call list \<Rightarrow> set_preset_response option"
  presets_reply :: "call list \<Rightarrow> preset list"

section \<open>The controller object\<close>

record CameraConfig =
  ip :: string
  port :: int
  username :: string
  password :: string
  wsdl_dir :: "string option"

text \<open>
  The attributes of \<^verbatim>\<open>PTZController\<close> that its methods read, together with the world
  the object acts on: the camera, the calls made so far (oldest first) and the lines
  printed by the methods. The attributes \<^verbatim>\<open>config\<close>, \<^verbatim>\<open>camera\<close>,
  \<^verbatim>\<open>media\<close> and \<^verbatim>\<open>cfg_opts\<close> are never read after construction and are left out.
\<close>

record limits =
  max_pan_speed :: real
  max_tilt_speed :: real
  max_zoom_speed :: real

record controller = limits +
  cam :: camera
  trace :: "call list"
  console :: "string list"
  profile :: media_profile
  request_continuous :: continuous_move_request
  request_stop :: stop_request
  request_gotopreset :: goto_preset_request
  request_setpreset :: set_preset_request

text \<open>Python's \<^verbatim>\<open>min(a, b)\<close> and \<^verbatim>\<open>max(a, b)\<close> return the first argument
  unless the second is strictly smaller (larger).\<close>

definition py_min :: "real \<Rightarrow> real \<Rightarrow> real" where
  "py_min a b = (if b < a then b else a)"

definition py_max :: "real \<Rightarrow> real \<Rightarrow> real" where
  "py_max a b = (if a < b then b else a)"

text \<open>\<^verbatim>\<open>_normalized_speed\<close> of \<^verbatim>\<open>ptz_controller.py\<close> (lines 106-111).\<close>

definition normalized_speed :: "real \<Rightarrow> real \<Rightarrow> real" where
  "normalized_speed v max_speed = (let v' = py_max (- 1) (py_min 1 v) in v' * max_speed)"

text \<open>\<^verbatim>\<open>_normalized_speed\<close> of \<^verbatim>\<open>ptz_control_with_keyboard.py\<close> (lines 129-134).\<close>

definition normalized_speed_kb :: "real \<Rightarrow> real \<Rightarrow> real" where
  "normalized_speed_kb v max_speed = (let v' = py_max (- 1) (py_min 1 v) in v' * max_speed)"

text \<open>A call is recorded in the trace whether it returns or raises.\<close>

definition invoke :: "call \<Rightarrow> controller \<Rightarrow> (exn + unit) \<times> controller" where
  "invoke c s =
     ((case raises (cam s) (trace s) c of Some e \<Rightarrow> Inl e | None \<Rightarrow> Inr ()),
      s\<lparr>trace := trace s @ [c]\<rparr>)"

text \<open>Statement sequencing: the second statement runs only if the first returned.\<close>

definition seq ::
  "(controller \<Rightarrow> (exn + unit) \<times> controller) \<Rightarrow> (controller \<Rightarrow> (exn + 'a) \<times> controller)
     \<Rightarrow> controller \<Rightarrow> (exn + 'a) \<times> controller" where
  "seq m k s = (case m s of (Inl e, s') \<Rightarrow> (Inl e, s') | (Inr u, s') \<Rightarrow> k s')"

text \<open>\<^verbatim>\<open>continuous_move\<close> (lines 113-131 and 136-154).\<close>

definition continuous_move :: "real \<Rightarrow> real \<Rightarrow> real \<Rightarrow> controller \<Rightarrow> (exn + unit) \<times> controller" where
  "continuous_move pan tilt zoom s =
     (let s1 = s\<lparr>request_continuous := (request_continuous s)\<lparr>cm_Velocity := Some
                 \<lparr>PanTilt_x = normalized_speed pan (max_pan_speed s),
                  PanTilt_y = normalized_speed tilt (max_tilt_speed s),
                  Zoom_x = normalized_speed zoom (max_zoom_speed s)\<rparr>\<rparr>\<rparr>
      in invoke (ContinuousMove (request_continuous s1)) s1)"

definition continuous_move_kb :: "real \<Rightarrow> real \<Rightarrow> real \<Rightarrow> controller \<Rightarrow> (exn + unit) \<times> controller" where
  "continuous_move_kb pan tilt zoom s =
     (let s1 = s\<lparr>request_continuous := (request_continuous s)\<lparr>cm_Velocity := Some
                 \<lparr>PanTilt_x = normalized_speed_kb pan (max_pan_speed s),
                  PanTilt_y = normalized_speed_kb tilt (max_tilt_speed s),
                  Zoom_x = normalized_speed_kb zoom (max_zoom_speed s)\<rparr>\<rparr>\<rparr>
      in invoke (ContinuousMove (request_continuous s1)) s1)"

text \<open>\<^verbatim>\<open>stop\<close>, \<^verbatim>\<open>go_to_preset\<close> and \<^verbatim>\<open>list_presets\<close> have the same text in
  both files (lines 133-140, 154-159 and 156-163, 176-181).\<close>

definition stop :: "bool \<Rightarrow> bool \<Rightarrow> controller \<Rightarrow> (exn + unit) \<times> controller" where
  "stop pan_tilt zoom s =
     (let s1 = s\<lparr>request_stop := (request_stop s)\<lparr>st_PanTilt := Some pan_tilt\<rparr>\<rparr>;
          s2 = s1\<lparr>request_stop := (request_stop s1)\<lparr>st_Zoom := Some zoom\<rparr>\<rparr>
      in invoke (Stop (request_stop s2)) s2)"

definition go_to_preset :: "string \<Rightarrow> controller \<Rightarrow> (exn + unit) \<times> controller" where
  "go_to_preset preset_token s =
     (let s1 = s\<lparr>request_gotopreset := (request_gotopreset s)\<lparr>gp_PresetToken := Some preset_token\<rparr>\<rparr>
      in invoke (GotoPreset (request_gotopreset s1)) s1)"

definition list_presets :: "controller \<Rightarrow> (exn + preset list) \<times> controller" where
  "list_presets s =
     (case invoke (GetPresets (token (profile s))) s of
        (Inl e, s') \<Rightarrow> (Inl e, s')
      | (Inr u, s') \<Rightarrow> (Inr (presets_reply (cam s) (trace s)), s'))"

text \<open>
  \<^verbatim>\<open>set_preset\<close> of \<^verbatim>\<open>ptz_controller.py\<close> (lines 142-152). The result is what Python
  returns: \<open>Some t\<close> for the string \<open>t\<close>, \<open>None\<close> for \<^verbatim>\<open>None\<close>. A response that is
  \<^verbatim>\<open>None\<close> or has no \<^verbatim>\<open>PresetToken\<close> attribute prints a warning and gives the empty
  string; an attribute that is there is returned as it is, also when it is \<^verbatim>\<open>None\<close>.
\<close>

definition set_preset :: "string \<Rightarrow> controller \<Rightarrow> (exn + string option) \<times> controller" where
  "set_preset name s =
     (let s1 = s\<lparr>request_setpreset := (request_setpreset s)\<lparr>sp_PresetName := Some name\<rparr>\<rparr>
      in case invoke (SetPreset (request_setpreset s1)) s1 of
           (Inl e, s2) \<Rightarrow> (Inl e, s2)
         | (Inr u, s2) \<Rightarrow>
             (case set_preset_reply (cam s1) (trace s1) of
                None \<Rightarrow>
                  (Inr (Some []),
                   s2\<lparr>console := console s2 @ [''Warning: No PresetToken returned from camera.'']\<rparr>)
              | Some resp \<Rightarrow>
                  if hasattr (PresetToken resp)
                  then (case PresetToken resp of
                          Val t \<Rightarrow> (Inr (Some t), s2)
                        | _ \<Rightarrow> (Inr None, s2))
                  else
                    (Inr (Some []),
                     s2\<lparr>console := console s2 @ [''Warning: No PresetToken returned from camera.'']\<rparr>)))"

text \<open>\<^verbatim>\<open>set_preset\<close> of \<^verbatim>\<open>ptz_control_with_keyboard.py\<close> (lines 165-174): the same,
  with nothing printed.\<close>

definition set_preset_kb :: "string \<Rightarrow> controller \<Rightarrow> (exn + string option) \<times> controller" where
  "set_preset_kb name s =
     (let s1 = s\<lparr>request_setpreset := (request_setpreset s)\<lparr>sp_PresetName := Some name\<rparr>\<rparr>
      in case invoke (SetPreset (request_setpreset s1)) s1 of
           (Inl e, s2) \<Rightarrow> (Inl e, s2)
         | (Inr u, s2) \<Rightarrow>
             (case set_preset_reply (cam s1) (trace s1) of
                None \<Rightarrow> (Inr (Some []), s2)
              | Some resp \<Rightarrow>
                  if hasattr (PresetToken resp)
                  then (case PresetToken resp of
                          Val t \<Rightarrow> (Inr (Some t), s2)
                        | _ \<Rightarrow> (Inr None, s2))
                  else (Inr (Some []), s2)))"

section \<open>Construction\<close>

text \<open>A run of calls made one after the other: the first that raises ends the run.\<close>

fun attempt :: "camera \<Rightarrow> call list \<Rightarrow> call list \<Rightarrow> exn + call list" where
  "attempt c tr [] = Inr tr"
| "attempt c tr (x # xs) =
     (case raises c tr x of Some e \<Rightarrow> Inl e | None \<Rightarrow> attempt c (tr @ [x]) xs)"

text \<open>
  The first part of \<^verbatim>\<open>__init__\<close>, the same in both files (lines 42-82 and 56-97):
  connect, make the two services, take the first media profile (no profile raises
  \<^verbatim>\<open>RuntimeError\<close>), make the four request objects. \<^verbatim>\<open>wsdl_dir\<close> is passed on
  only when it is truthy.
\<close>

definition open_session :: "CameraConfig \<Rightarrow> camera \<Rightarrow> exn + call list \<times> media_profile" where
  "open_session config c =
     (case attempt c []
        [ONVIFCamera (ip config) (port config) (username config) (password config)
           (case wsdl_dir config of None \<Rightarrow> None | Some d \<Rightarrow> if d = [] then None else Some d),
         CreateMediaService, CreatePtzService, GetProfiles] of
        Inl e \<Rightarrow> Inl e
      | Inr tr \<Rightarrow>
          (case profiles_reply c of
             [] \<Rightarrow> Inl (RuntimeError ''No media profiles found on camera.'')
           | p # ps \<Rightarrow>
               (case attempt c tr
                  [CreateType ''ContinuousMove'', CreateType ''Stop'',
                   CreateType ''GotoPreset'', CreateType ''SetPreset''] of
                  Inl e \<Rightarrow> Inl e
                | Inr tr' \<Rightarrow> Inr (tr', p))))"

definition default_limits :: limits where
  "default_limits = \<lparr>max_pan_speed = 0.5, max_tilt_speed = 0.5, max_zoom_speed = 0.5\<rparr>"

text \<open>The object once its attributes are assigned: every request carries the token of the
  chosen profile.\<close>

definition new_controller :: "camera \<Rightarrow> call list \<Rightarrow> media_profile \<Rightarrow> limits \<Rightarrow> controller" where
  "new_controller c tr p l =
     \<lparr>max_pan_speed = max_pan_speed l, max_tilt_speed = max_tilt_speed l,
      max_zoom_speed = max_zoom_speed l,
      cam = c, trace = tr, console = [], profile = p,
      request_continuous = \<lparr>cm_ProfileToken = token p, cm_Velocity = None\<rparr>,
      request_stop = \<lparr>st_ProfileToken = token p, st_PanTilt = None, st_Zoom = None\<rparr>,
      request_gotopreset = \<lparr>gp_ProfileToken = token p, gp_PresetToken = None\<rparr>,
      request_setpreset = \<lparr>sp_ProfileToken = token p, sp_PresetName = None\<rparr>\<rparr>"

subsection \<open>\<^verbatim>\<open>ptz_controller.py\<close>, lines 84-104\<close>

text \<open>Lines 97-99: reading an attribute that is missing or \<^verbatim>\<open>None\<close> raises
  \<^verbatim>\<open>AttributeError\<close>, after the assignments made before it.\<close>

definition read_pan_tilt :: "spaces \<Rightarrow> controller \<Rightarrow> (exn + unit) \<times> controller" where
  "read_pan_tilt sp s =
     (case PanTiltVelocitySpace sp of
        Val (d # ds) \<Rightarrow>
          (case XRange d of
             Val rx \<Rightarrow>
               (let s1 = s\<lparr>max_pan_speed := range_Max rx\<rparr>
                in case YRange d of
                     Val ry \<Rightarrow> (Inr (), s1\<lparr>max_tilt_speed := range_Max ry\<rparr>)
                   | _ \<Rightarrow> (Inl AttributeError, s1))
           | _ \<Rightarrow> (Inl AttributeError, s))
      | _ \<Rightarrow> (Inr (), s))"

text \<open>Lines 100-101.\<close>

definition read_zoom :: "spaces \<Rightarrow> controller \<Rightarrow> (exn + unit) \<times> controller" where
  "read_zoom sp s =
     (case ZoomVelocitySpace sp of
        Val (d # ds) \<Rightarrow>
          (case zoom_XRange d of
             Val rx \<Rightarrow> (Inr (), s\<lparr>max_zoom_speed := range_Max rx\<rparr>)
           | _ \<Rightarrow> (Inl AttributeError, s))
      | _ \<Rightarrow> (Inr (), s))"

text \<open>Lines 94-104: \<^verbatim>\<open>try: ... except Exception: pass\<close>. What was assigned before
  an exception stays.\<close>

definition read_limits :: "cfg_options option \<Rightarrow> controller \<Rightarrow> controller" where
  "read_limits opts s =
     (case opts of
        None \<Rightarrow> s
      | Some co \<Rightarrow>
          (case Spaces co of
             Val sp \<Rightarrow> snd (seq (read_pan_tilt sp) (read_zoom sp) s)
           | _ \<Rightarrow> s))"

text \<open>\<^verbatim>\<open>PTZController.__init__\<close> of \<^verbatim>\<open>ptz_controller.py\<close>: the query of lines
  85-87 stands before the \<^verbatim>\<open>try\<close>.\<close>

definition PTZController_init :: "CameraConfig \<Rightarrow> camera \<Rightarrow> exn + controller" where
  "PTZController_init config c =
     (case open_session config c of
        Inl e \<Rightarrow> Inl e
      | Inr (tr, p) \<Rightarrow>
          (case PTZConfiguration_token p of
             None \<Rightarrow> Inl AttributeError
           | Some ct \<Rightarrow>
               (case raises c tr (GetConfigurationOptions ct) of
                  Some e \<Rightarrow> Inl e
                | None \<Rightarrow>
                    Inr (read_limits (options_reply c)
                          (new_controller c (tr @ [GetConfigurationOptions ct]) p default_limits)))))"

subsection \<open>\<^verbatim>\<open>ptz_control_with_keyboard.py\<close>, lines 99-127\<close>

text \<open>Lines 104-122: the test of the response and the two branches. The test asks
  \<^verbatim>\<open>hasattr\<close> of the ranges only, so a range that is \<^verbatim>\<open>None\<close> passes it and
  raises in the assignments.\<close>

definition discover_kb :: "cfg_options option \<Rightarrow> exn + limits" where
  "discover_kb opts =
     (case opts of
        None \<Rightarrow> Inr default_limits
      | Some co \<Rightarrow>
          (case Spaces co of
             Val sp \<Rightarrow>
               (case (PanTiltVelocitySpace sp, ZoomVelocitySpace sp) of
                  (Val (d # ds), Val (z # zs)) \<Rightarrow>
                    if hasattr (XRange d) \<and> hasattr (YRange d) \<and> hasattr (zoom_XRange z)
                    then (case (XRange d, YRange d, zoom_XRange z) of
                            (Val rx, Val ry, Val rz) \<Rightarrow>
                              Inr \<lparr>max_pan_speed = range_Max rx, max_tilt_speed = range_Max ry,
                                   max_zoom_speed = range_Max rz\<rparr>
                          | _ \<Rightarrow> Inl AttributeError)
                    else Inr default_limits
                | _ \<Rightarrow> Inr default_limits)
           | _ \<Rightarrow> Inr default_limits))"

text \<open>\<^verbatim>\<open>PTZController.__init__\<close> of \<^verbatim>\<open>ptz_control_with_keyboard.py\<close>: the query
  stands inside the \<^verbatim>\<open>try\<close>, and \<^verbatim>\<open>except Exception\<close> assigns the three defaults.\<close>

definition PTZController_init_kb :: "CameraConfig \<Rightarrow> camera \<Rightarrow> exn + controller" where
  "PTZController_init_kb config c =
     (case open_session config c of
        Inl e \<Rightarrow> Inl e
      | Inr (tr, p) \<Rightarrow>
          (case PTZConfiguration_token p of
             None \<Rightarrow> Inr (new_controller c tr p default_limits)
           | Some ct \<Rightarrow>
               (case raises c tr (GetConfigurationOptions ct) of
                  Some e \<Rightarrow>
                    if is_Exception e
                    then Inr (new_controller c (tr @ [GetConfigurationOptions ct]) p default_limits)
                    else Inl e
                | None \<Rightarrow>
                    (case discover_kb (options_reply c) of
                       Inl e \<Rightarrow>
                         Inr (new_controller c (tr @ [GetConfigurationOptions ct]) p default_limits)
                     | Inr l \<Rightarrow>
                         Inr (new_controller c (tr @ [GetConfigurationOptions ct]) p l)))))"

section \<open>The two command loops\<close>

text \<open>
  What the loops print (menu, banners, the listing of presets) is left out; what they
  read and what they call is kept. \<^verbatim>\<open>input()\<close> meets a line, the end of the input or
  Ctrl-C.
\<close>

datatype console_input = Line string | Eof | CtrlC

fun input_line :: "console_input \<Rightarrow> exn + string" where
  "input_line (Line l) = Inr l"
| "input_line Eof = Inl EOFError"
| "input_line CtrlC = Inl KeyboardInterrupt"

text \<open>
  A line that \<^verbatim>\<open>input()\<close> returns is read as a sequence of code points below 256, one
  \<open>char\<close> each. \<^verbatim>\<open>str.strip()\<close> removes the white space at both ends: of these code
  points, the ones for which \<^verbatim>\<open>str.isspace\<close> holds are U+0009 to U+000D, U+001C to
  U+001F, U+0020, U+0085 and U+00A0.
\<close>

definition is_space :: "char \<Rightarrow> bool" where
  "is_space ch = (ch \<in> set [CHR 0x09, CHR 0x0A, CHR 0x0B, CHR 0x0C, CHR 0x0D,
                            CHR 0x1C, CHR 0x1D, CHR 0x1E, CHR 0x1F, CHR 0x20,
                            CHR 0x85, CHR 0xA0])"

definition strip :: "string \<Rightarrow> string" where
  "strip l = rev (dropWhile is_space (rev (dropWhile is_space l)))"

datatype loop_ctl = Continue | Break

text \<open>The end of an \<^verbatim>\<open>if\<close> branch: an exception leaves the loop, otherwise the loop
  goes on or is left by \<^verbatim>\<open>break\<close>.\<close>

definition ends :: "loop_ctl \<Rightarrow> (exn + 'a) \<times> controller \<Rightarrow> (exn + loop_ctl) \<times> controller" where
  "ends ctl r = (case r of (Inl e, s) \<Rightarrow> (Inl e, s) | (Inr x, s) \<Rightarrow> (Inr ctl, s))"

subsection \<open>\<^verbatim>\<open>run_cli\<close>\<close>

definition move_speed :: real where
  "move_speed = 0.5"

definition move_duration_sec :: real where
  "move_duration_sec = 0.5"

text \<open>
  Lines 202-271: the branches of one menu choice. The prompts of choices 9 and 10 read a
  further line: the result says how many further lines were read, and is \<open>None\<close> when the
  program waits at a prompt for a line that never comes.
\<close>

definition cli_choice ::
  "string \<Rightarrow> console_input list \<Rightarrow> controller \<Rightarrow> (((exn + loop_ctl) \<times> controller) \<times> nat) option" where
  "cli_choice choice rest s =
     (if choice = ''0'' then Some (ends Break (stop True True s), 0)
      else if choice = ''1'' then
        Some (ends Continue
          (seq (continuous_move (- move_speed) 0 0)
            (seq (invoke (Sleep move_duration_sec)) (stop True True)) s), 0)
      else if choice = ''2'' then
        Some (ends Continue
          (seq (continuous_move move_speed 0 0)
            (seq (invoke (Sleep move_duration_sec)) (stop True True)) s), 0)
      else if choice = ''3'' then
        Some (ends Continue
          (seq (continuous_move 0 move_speed 0)
            (seq (invoke (Sleep move_duration_sec)) (stop True True)) s), 0)
      else if choice = ''4'' then
        Some (ends Continue
          (seq (continuous_move 0 (- move_speed) 0)
            (seq (invoke (Sleep move_duration_sec)) (stop True True)) s), 0)
      else if choice = ''5'' then
        Some (ends Continue
          (seq (continuous_move 0 0 move_speed)
            (seq (invoke (Sleep move_duration_sec)) (stop False True)) s), 0)
      else if choice = ''6'' then
        Some (ends Continue
          (seq (continuous_move 0 0 (- move_speed))
            (seq (invoke (Sleep move_duration_sec)) (stop False True)) s), 0)
      else if choice = ''7'' then Some (ends Continue (stop True True s), 0)
      else if choice = ''8'' then Some (ends Continue (list_presets s), 0)
      else if choice = ''9'' then
        (case rest of
           [] \<Rightarrow> None
         | i # is \<Rightarrow>
             (case input_line i of
                Inl e \<Rightarrow> Some ((Inl e, s), 1)
              | Inr l \<Rightarrow>
                  if strip l = [] then Some ((Inr Continue, s), 1)
                  else Some (ends Continue (go_to_preset (strip l) s), 1)))
      else if choice = ''10'' then
        (case rest of
           [] \<Rightarrow> None
         | i # is \<Rightarrow>
             (case input_line i of
                Inl e \<Rightarrow> Some ((Inl e, s), 1)
              | Inr l \<Rightarrow> Some (ends Continue (set_preset (strip l) s), 1)))
      else Some ((Inr Continue, s), 0))"

text \<open>
  Lines 194-273: the loop and the \<^verbatim>\<open>controller.stop()\<close> after it. The end of the
  input or Ctrl-C at the menu prompt stops the camera and leaves through
  \<^verbatim>\<open>sys.exit(0)\<close>. The result is \<open>None\<close> when the lines run out before the program ends.
\<close>

fun run_cli_loop :: "console_input list \<Rightarrow> controller \<Rightarrow> ((exn + unit) \<times> controller) option" where
  "run_cli_loop [] s = None"
| "run_cli_loop (i # rest) s =
     (case input_line i of
        Inl e \<Rightarrow> Some (seq (stop True True) (\<lambda>s'. (Inl (SystemExit 0), s')) s)
      | Inr l \<Rightarrow>
          (case cli_choice (strip l) rest s of
             None \<Rightarrow> None
           | Some ((Inl e, s'), n) \<Rightarrow> Some (Inl e, s')
           | Some ((Inr Break, s'), n) \<Rightarrow> Some (stop True True s')
           | Some ((Inr Continue, s'), n) \<Rightarrow> run_cli_loop (drop n rest) s'))"

definition CameraConfig_default :: CameraConfig where
  "CameraConfig_default =
     \<lparr>ip = ''192.168.1.13'', port = 80, username = ''admin'', password = ''qazWSX((00'',
      wsdl_dir = None\<rparr>"

text \<open>\<^verbatim>\<open>run_cli\<close>: \<open>Inl\<close> when the construction raises.\<close>

definition run_cli :: "console_input list \<Rightarrow> camera \<Rightarrow> (exn + (exn + unit) \<times> controller) option" where
  "run_cli inputs c =
     (case PTZController_init CameraConfig_default c of
        Inl e \<Rightarrow> Some (Inl e)
      | Inr s \<Rightarrow> map_option Inr (run_cli_loop inputs s))"

subsection \<open>\<^verbatim>\<open>run_keyboard\<close>\<close>

definition move_speed_kb :: real where
  "move_speed_kb = 1.0"

definition move_duration_sec_kb :: real where
  "move_duration_sec_kb = 0.3"

text \<open>\<^verbatim>\<open>ch.decode(errors="ignore").lower()\<close> of one byte: a byte that is not ASCII is
  dropped.\<close>

definition lower_ascii :: "char \<Rightarrow> char" where
  "lower_ascii ch =
     (case map_of (zip ''ABCDEFGHIJKLMNOPQRSTUVWXYZ'' ''abcdefghijklmnopqrstuvwxyz'') ch of
        None \<Rightarrow> ch
      | Some l \<Rightarrow> l)"

definition key_of :: "char \<Rightarrow> string" where
  "key_of ch = (if 128 \<le> (of_char ch :: nat) then [] else [lower_ascii ch])"

text \<open>
  The keyboard: one entry for each \<^verbatim>\<open>msvcrt.kbhit()\<close>, \<open>None\<close> when no key waits.
  \<^verbatim>\<open>msvcrt.getch()\<close> blocks until a key comes.
\<close>

fun getch :: "char option list \<Rightarrow> (char \<times> char option list) option" where
  "getch [] = None"
| "getch (None # polls) = getch polls"
| "getch (Some ch # polls) = Some (ch, polls)"

text \<open>Lines 217-238: the second byte of an arrow key.\<close>

definition kb_arrow :: "char \<Rightarrow> controller \<Rightarrow> (exn + unit) \<times> controller" where
  "kb_arrow ch2 s =
     (if ch2 = CHR ''H'' then
        seq (continuous_move_kb 0 move_speed_kb 0)
          (seq (invoke (Sleep move_duration_sec_kb)) (stop True True)) s
      else if ch2 = CHR ''P'' then
        seq (continuous_move_kb 0 (- move_speed_kb) 0)
          (seq (invoke (Sleep move_duration_sec_kb)) (stop True True)) s
      else if ch2 = CHR ''K'' then
        seq (continuous_move_kb (- move_speed_kb) 0 0)
          (seq (invoke (Sleep move_duration_sec_kb)) (stop True True)) s
      else if ch2 = CHR ''M'' then
        seq (continuous_move_kb move_speed_kb 0 0)
          (seq (invoke (Sleep move_duration_sec_kb)) (stop True True)) s
      else (Inr (), s))"

text \<open>Lines 241-315: the branches of a regular key. The prompts of \<^verbatim>\<open>g\<close> and
  \<^verbatim>\<open>o\<close> read a line after stopping the camera.\<close>

definition kb_key ::
  "char \<Rightarrow> console_input list \<Rightarrow> controller \<Rightarrow> (((exn + loop_ctl) \<times> controller) \<times> nat) option" where
  "kb_key ch lines s =
     (let key = key_of ch
      in if ch = CHR 0x1B then Some (ends Break (stop True True s), 0)
         else if key = ''w'' then
           Some (ends Continue
             (seq (continuous_move_kb 0 move_speed_kb 0)
               (seq (invoke (Sleep move_duration_sec_kb)) (stop True True)) s), 0)
         else if key = ''s'' then
           Some (ends Continue
             (seq (continuous_move_kb 0 (- move_speed_kb) 0)
               (seq (invoke (Sleep move_duration_sec_kb)) (stop True True)) s), 0)
         else if key = ''a'' then
           Some (ends Continue
             (seq (continuous_move_kb (- move_speed_kb) 0 0)
               (seq (invoke (Sleep move_duration_sec_kb)) (stop True True)) s), 0)
         else if key = ''d'' then
           Some (ends Continue
             (seq (continuous_move_kb move_speed_kb 0 0)
               (seq (invoke (Sleep move_duration_sec_kb)) (stop True True)) s), 0)
         else if key = ''q'' then
           Some (ends Continue
             (seq (continuous_move_kb 0 0 move_speed_kb)
               (seq (invoke (Sleep move_duration_sec_kb)) (stop False True)) s), 0)
         else if key = ''e'' then
           Some (ends Continue
             (seq (continuous_move_kb 0 0 (- move_speed_kb))
               (seq (invoke (Sleep move_duration_sec_kb)) (stop False True)) s), 0)
         else if ch = CHR '' '' then Some (ends Continue (stop True True s), 0)
         else if key = ''p'' then Some (ends Continue (list_presets s), 0)
         else if key = ''g'' then
           (case stop True True s of
              (Inl e, s') \<Rightarrow> Some ((Inl e, s'), 0)
            | (Inr u, s') \<Rightarrow>
                (case lines of
                   [] \<Rightarrow> None
                 | i # is \<Rightarrow>
                     (case input_line i of
                        Inl e \<Rightarrow> Some ((Inl e, s'), 1)
                      | Inr l \<Rightarrow>
                          if strip l \<noteq> [] then Some (ends Continue (go_to_preset (strip l) s'), 1)
                          else Some ((Inr Continue, s'), 1))))
         else if key = ''o'' then
           (case stop True True s of
              (Inl e, s') \<Rightarrow> Some ((Inl e, s'), 0)
            | (Inr u, s') \<Rightarrow>
                (case lines of
                   [] \<Rightarrow> None
                 | i # is \<Rightarrow>
                     (case input_line i of
                        Inl e \<Rightarrow> Some ((Inl e, s'), 1)
                      | Inr l \<Rightarrow> Some (ends Continue (set_preset_kb (strip l) s'), 1))))
         else Some ((Inr Continue, s), 0))"

text \<open>
  Lines 211-318: the loop. An arrow key ends its turn with \<^verbatim>\<open>continue\<close>; every other
  turn ends with \<^verbatim>\<open>time.sleep(0.01)\<close>. The result is \<open>None\<close> when the program waits
  for a key or a line that never comes, and \<open>Inr ()\<close> after \<^verbatim>\<open>break\<close>.
\<close>

function kb_loop ::
  "char option list \<Rightarrow> console_input list \<Rightarrow> controller \<Rightarrow> ((exn + unit) \<times> controller) option" where
  "kb_loop [] lines s = None"
| "kb_loop (None # polls) lines s =
     (case invoke (Sleep 0.01) s of
        (Inl e, s') \<Rightarrow> Some (Inl e, s')
      | (Inr u, s') \<Rightarrow> kb_loop polls lines s')"
| "kb_loop (Some ch # polls) lines s =
     (if ch = CHR 0xE0 then
        (case getch polls of
           None \<Rightarrow> None
         | Some (ch2, polls') \<Rightarrow>
             (case kb_arrow ch2 s of
                (Inl e, s') \<Rightarrow> Some (Inl e, s')
              | (Inr u, s') \<Rightarrow> kb_loop polls' lines s'))
      else
        (case kb_key ch lines s of
           None \<Rightarrow> None
         | Some ((Inl e, s'), n) \<Rightarrow> Some (Inl e, s')
         | Some ((Inr Break, s'), n) \<Rightarrow> Some (Inr (), s')
         | Some ((Inr Continue, s'), n) \<Rightarrow>
             (case invoke (Sleep 0.01) s' of
                (Inl e, s'') \<Rightarrow> Some (Inl e, s'')
              | (Inr u, s'') \<Rightarrow> kb_loop polls (drop n lines) s'')))"
  by pat_completeness auto
termination
proof -
  have getch_shorter: "length polls' < Suc (length polls)"
    if "getch polls = Some (ch2, polls')" for polls polls' ch2
    using that by (induction polls rule: getch.induct) auto
  show ?thesis
    by (relation "measure (\<lambda>(polls, lines, s). length polls)")
       (auto dest: getch_shorter)
qed

text \<open>
  Lines 210-323: \<^verbatim>\<open>try\<close> around the loop, \<^verbatim>\<open>except KeyboardInterrupt\<close> and
  \<^verbatim>\<open>finally: controller.stop()\<close>. Another exception goes on after the \<^verbatim>\<open>finally\<close>
  block, unless the stop raises itself.
\<close>

definition run_keyboard_loop ::
  "char option list \<Rightarrow> console_input list \<Rightarrow> controller \<Rightarrow> ((exn + unit) \<times> controller) option" where
  "run_keyboard_loop polls lines s =
     (case kb_loop polls lines s of
        None \<Rightarrow> None
      | Some (Inr u, s') \<Rightarrow> Some (stop True True s')
      | Some (Inl KeyboardInterrupt, s') \<Rightarrow> Some (stop True True s')
      | Some (Inl e, s') \<Rightarrow>
          Some (case stop True True s' of
                  (Inl e', s'') \<Rightarrow> (Inl e', s'')
                | (Inr u, s'') \<Rightarrow> (Inl e, s'')))"

text \<open>\<^verbatim>\<open>run_keyboard\<close>: \<open>Inl\<close> when the construction raises.\<close>

definition run_keyboard ::
  "char option list \<Rightarrow> console_input list \<Rightarrow> camera \<Rightarrow> (exn + (exn + unit) \<times> controller) option" where
  "run_keyboard polls lines c =
     (case PTZController_init_kb CameraConfig_default c of
        Inl e \<Rightarrow> Some (Inl e)
      | Inr s \<Rightarrow> map_option Inr (run_keyboard_loop polls lines s))"

section \<open>Cameras for the examples\<close>

definition example_profile :: media_profile where
  "example_profile = \<lparr>token = ''Profile_1'', PTZConfiguration_token = Some ''PTZ_1''\<rparr>"

definition example_options :: cfg_options where
  "example_options =
     \<lparr>Spaces = Val
        \<lparr>PanTiltVelocitySpace = Val
           [\<lparr>XRange = Val \<lparr>range_Min = - 0.7, range_Max = 0.7\<rparr>,
             YRange = Val \<lparr>range_Min = - 0.6, range_Max = 0.6\<rparr>\<rparr>],
         ZoomVelocitySpace = Val
           [\<lparr>zoom_XRange = Val \<lparr>range_Min = - 0.4, range_Max = 0.4\<rparr>\<rparr>]\<rparr>\<rparr>"

text \<open>A camera that answers every call, reports the limits 0.7, 0.6 and 0.4, has no
  preset and answers \<^verbatim>\<open>SetPreset\<close> with \<^verbatim>\<open>None\<close>.\<close>

definition quiet_camera :: camera where
  "quiet_camera =
     \<lparr>raises = (\<lambda>tr c. None),
      profiles_reply = [example_profile],
      options_reply = Some example_options,
      set_preset_reply = (\<lambda>tr. None),
      presets_reply = (\<lambda>tr. [])\<rparr>"

text \<open>The same camera, except that every \<^verbatim>\<open>ContinuousMove\<close> raises.\<close>

definition jammed_camera :: camera where
  "jammed_camera =
     quiet_camera\<lparr>raises := (\<lambda>tr c. case c of ContinuousMove r \<Rightarrow> Some Fault | _ \<Rightarrow> None)\<rparr>"

text \<open>The same camera, except that \<^verbatim>\<open>GetConfigurationOptions\<close> raises.\<close>

definition mute_camera :: camera where
  "mute_camera =
     quiet_camera\<lparr>raises := (\<lambda>tr c. case c of GetConfigurationOptions t \<Rightarrow> Some Fault | _ \<Rightarrow> None)\<rparr>"

text \<open>The same camera, except that it answers \<^verbatim>\<open>SetPreset\<close> with the token 7.\<close>

definition token_camera :: camera where
  "token_camera =
     quiet_camera\<lparr>set_preset_reply := (\<lambda>tr. Some \<lparr>PresetToken = Val ''7''\<rparr>)\<rparr>"

text \<open>The calls of a construction that goes through: the trace every example starts from.\<close>

definition session_calls :: "call list" where
  "session_calls =
     [ONVIFCamera ''192.168.1.13'' 80 ''admin'' ''qazWSX((00'' None,
      CreateMediaService, CreatePtzService, GetProfiles,
      CreateType ''ContinuousMove'', CreateType ''Stop'',
      CreateType ''GotoPreset'', CreateType ''SetPreset'',
      GetConfigurationOptions ''PTZ_1'']"

definition quiet_controller :: controller where
  "quiet_controller =
     new_controller quiet_camera session_calls example_profile
       \<lparr>max_pan_speed = 0.7, max_tilt_speed = 0.6, max_zoom_speed = 0.4\<rparr>"

text \<open>The same camera, except that the response to \<^verbatim>\<open>SetPreset\<close> has no
  \<^verbatim>\<open>PresetToken\<close> attribute.\<close>

definition tokenless_camera :: camera where
  "tokenless_camera =
     quiet_camera\<lparr>set_preset_reply := (\<lambda>tr. Some \<lparr>PresetToken = Absent\<rparr>)\<rparr>"

definition tokenless_controller :: controller where
  "tokenless_controller =
     new_controller tokenless_camera session_calls example_profile
       \<lparr>max_pan_speed = 0.7, max_tilt_speed = 0.6, max_zoom_speed = 0.4\<rparr>"

definition token_controller :: controller where
  "token_controller =
     new_controller token_camera session_calls example_profile
       \<lparr>max_pan_speed = 0.7, max_tilt_speed = 0.6, max_zoom_speed = 0.4\<rparr>"

definition jammed_controller :: controller where
  "jammed_controller =
     new_controller jammed_camera session_calls example_profile
       \<lparr>max_pan_speed = 0.7, max_tilt_speed = 0.6, max_zoom_speed = 0.4\<rparr>"

text \<open>The same camera, except that it reports a pan/tilt velocity space and no zoom
  velocity space.\<close>

definition fixed_lens_camera :: camera where
  "fixed_lens_camera =
     quiet_camera\<lparr>options_reply := Some
       \<lparr>Spaces = Val
          \<lparr>PanTiltVelocitySpace = Val
             [\<lparr>XRange = Val \<lparr>range_Min = - 0.7, range_Max = 0.7\<rparr>,
               YRange = Val \<lparr>range_Min = - 0.6, range_Max = 0.6\<rparr>\<rparr>],
           ZoomVelocitySpace = Absent\<rparr>\<rparr>\<rparr>"

section \<open>Observations used in the statements\<close>

text \<open>The profile token a call is addressed to, for the calls that carry one.\<close>

fun target :: "call \<Rightarrow> token option" where
  "target (ContinuousMove r) = Some (cm_ProfileToken r)"
| "target (Stop r) = Some (st_ProfileToken r)"
| "target (GotoPreset r) = Some (gp_ProfileToken r)"
| "target (SetPreset r) = Some (sp_ProfileToken r)"
| "target (GetPresets t) = Some t"
| "target c = None"

text \<open>The \<^verbatim>\<open>ProfileToken\<close> fields of the four request objects.\<close>

definition request_tokens :: "controller \<Rightarrow> token list" where
  "request_tokens s =
     [cm_ProfileToken (request_continuous s), st_ProfileToken (request_stop s),
      gp_ProfileToken (request_gotopreset s), sp_ProfileToken (request_setpreset s)]"

text \<open>A session on the profile token \<open>t\<close>: the chosen profile and the four requests carry
  \<open>t\<close>, and every call made so far that is addressed to a profile is addressed to \<open>t\<close>.\<close>

definition addressed_to :: "token \<Rightarrow> call list \<Rightarrow> bool" where
  "addressed_to t tr = list_all (\<lambda>c. target c = None \<or> target c = Some t) tr"

definition session_on :: "token \<Rightarrow> controller \<Rightarrow> bool" where
  "session_on t s =
     (token (profile s) = t \<and> request_tokens s = [t, t, t, t] \<and> addressed_to t (trace s))"

text \<open>The three limits of a controller.\<close>

definition limits_of :: "controller \<Rightarrow> limits" where
  "limits_of s =
     \<lparr>max_pan_speed = max_pan_speed s, max_tilt_speed = max_tilt_speed s,
      max_zoom_speed = max_zoom_speed s\<rparr>"

text \<open>
  The well-formed response in the words of the specification (section 4.3): a response
  that contains the velocity range of every axis. \<open>reported_maxima\<close> gives the three
  maxima of such a response, and \<open>None\<close> for a response that is absent or lacks a range.
\<close>

definition reported_maxima :: "cfg_options option \<Rightarrow> limits option" where
  "reported_maxima opts =
     (case opts of
        None \<Rightarrow> None
      | Some co \<Rightarrow>
          (case Spaces co of
             Val sp \<Rightarrow>
               (case (PanTiltVelocitySpace sp, ZoomVelocitySpace sp) of
                  (Val (d # ds), Val (z # zs)) \<Rightarrow>
                    (case (XRange d, YRange d, zoom_XRange z) of
                       (Val rx, Val ry, Val rz) \<Rightarrow>
                         Some \<lparr>max_pan_speed = range_Max rx, max_tilt_speed = range_Max ry,
                               max_zoom_speed = range_Max rz\<rparr>
                     | _ \<Rightarrow> None)
                | _ \<Rightarrow> None)
           | _ \<Rightarrow> None))"

section \<open>Normalisation\<close>

text \<open>The clamp returns one of \<open>-1\<close>, \<open>1\<close> and its argument: it does no arithmetic, so the
  only arithmetic of \<^verbatim>\<open>_normalized_speed\<close> is its one multiplication.\<close>

lemma py_clamp: "py_max (- 1) (py_min 1 v) = (if v < - 1 then - 1 else if 1 < v then 1 else v)"
  by (simp add: py_max_def py_min_def)

text \<open>
  C3. For every \<open>v\<close> outside \<open>[-1, 1]\<close> and every limit, both \<^verbatim>\<open>_normalized_speed\<close>
  functions return what they return at the nearest end of the interval; in particular
  \<open>normalize(2.0, 0.5) = 0.5\<close> and \<open>normalize(-5.0, 0.5) = -0.5\<close>. The functions return
  a number for every input: nothing is rejected.
\<close>

theorem normalized_speed_clamps:
  assumes "v < - 1 \<or> 1 < v"
  shows "normalized_speed v limit = normalized_speed (if v < - 1 then - 1 else 1) limit
       \<and> normalized_speed_kb v limit = normalized_speed_kb (if v < - 1 then - 1 else 1) limit
       \<and> normalized_speed 2.0 0.5 = 0.5 \<and> normalized_speed (- 5.0) 0.5 = - 0.5
       \<and> normalized_speed_kb 2.0 0.5 = 0.5 \<and> normalized_speed_kb (- 5.0) 0.5 = - 0.5"
  using assms by (auto simp: normalized_speed_def normalized_speed_kb_def py_max_def py_min_def)

theorem normalized_speed_clamps_witness:
  "((2::real) < - 1 \<or> 1 < (2::real))
   \<and> normalized_speed 2 0.5 = normalized_speed 1 0.5
   \<and> ((- 5::real) < - 1 \<or> 1 < (- 5::real))
   \<and> normalized_speed (- 5) 0.5 = normalized_speed (- 1) 0.5"
  using normalized_speed_clamps [of 2 "0.5"] normalized_speed_clamps [of "- 5" "0.5"]
  by simp

text \<open>
  C4. For every \<open>v\<close> in \<open>[-1, 1]\<close> and every limit, both \<^verbatim>\<open>_normalized_speed\<close>
  functions return \<open>v * limit\<close>. They are functions of their two arguments alone: they
  neither read nor change the controller.
\<close>

theorem normalized_speed_in_range:
  assumes "- 1 \<le> v" and "v \<le> 1"
  shows "normalized_speed v limit = v * limit \<and> normalized_speed_kb v limit = v * limit"
  using assms by (simp add: normalized_speed_def normalized_speed_kb_def py_max_def py_min_def)

theorem normalized_speed_in_range_witness:
  "- 1 \<le> (- 0.5::real) \<and> (- 0.5::real) \<le> 1
   \<and> normalized_speed (- 0.5) 0.6 = - 0.5 * 0.6 \<and> normalized_speed_kb (- 0.5) 0.6 = - 0.3"
  using normalized_speed_in_range [of "- 0.5" "0.6"] by simp

text \<open>
  C9. The \<^verbatim>\<open>_normalized_speed\<close> of \<^verbatim>\<open>ptz_controller.py\<close> and the one of
  \<^verbatim>\<open>ptz_control_with_keyboard.py\<close> return the same result for every value and every
  limit.
\<close>

theorem normalized_speed_variants_equal:
  "\<forall>v limit. normalized_speed v limit = normalized_speed_kb v limit"
  by (simp add: normalized_speed_def normalized_speed_kb_def)

section \<open>The methods of the controller\<close>

lemma snd_invoke: "snd (invoke c s) = s\<lparr>trace := trace s @ [c]\<rparr>"
  by (simp add: invoke_def)

lemma fst_invoke:
  "fst (invoke c s) = (case raises (cam s) (trace s) c of Some e \<Rightarrow> Inl e | None \<Rightarrow> Inr ())"
  by (simp add: invoke_def)

text \<open>
  C5. With the limits 0.7, 0.6 and 0.4, \<^verbatim>\<open>continuous_move(pan=1.0, tilt=-0.5, zoom=0.0)\<close>
  makes exactly one call, \<^verbatim>\<open>ContinuousMove\<close>, and its request carries the velocity
  \<open>(0.7, -0.3, 0.0)\<close>; in both files.
\<close>

theorem continuous_move_scenario:
  assumes "max_pan_speed s = 0.7" and "max_tilt_speed s = 0.6" and "max_zoom_speed s = 0.4"
  shows "trace (snd (continuous_move 1.0 (- 0.5) 0.0 s)) =
           trace s @ [ContinuousMove ((request_continuous s)\<lparr>cm_Velocity :=
                        Some \<lparr>PanTilt_x = 0.7, PanTilt_y = - 0.3, Zoom_x = 0.0\<rparr>\<rparr>)]
       \<and> trace (snd (continuous_move_kb 1.0 (- 0.5) 0.0 s)) =
           trace s @ [ContinuousMove ((request_continuous s)\<lparr>cm_Velocity :=
                        Some \<lparr>PanTilt_x = 0.7, PanTilt_y = - 0.3, Zoom_x = 0.0\<rparr>\<rparr>)]"
  using assms
  by (simp add: continuous_move_def continuous_move_kb_def snd_invoke
      normalized_speed_def normalized_speed_kb_def py_max_def py_min_def)

theorem continuous_move_scenario_witness:
  "max_pan_speed quiet_controller = 0.7 \<and> max_tilt_speed quiet_controller = 0.6
   \<and> max_zoom_speed quiet_controller = 0.4
   \<and> trace (snd (continuous_move 1.0 (- 0.5) 0.0 quiet_controller)) =
        session_calls @ [ContinuousMove \<lparr>cm_ProfileToken = ''Profile_1'', cm_Velocity =
                        Some \<lparr>PanTilt_x = 0.7, PanTilt_y = - 0.3, Zoom_x = 0.0\<rparr>\<rparr>]"
  using continuous_move_scenario [of quiet_controller]
  by (simp add: quiet_controller_def new_controller_def example_profile_def)

text \<open>
  C8. When the \<^verbatim>\<open>GetPresets\<close> call returns, \<^verbatim>\<open>list_presets\<close> returns exactly the
  sequence the camera reported, after that one call; for a camera with no preset this is
  the empty sequence, returned and not raised.
\<close>

theorem list_presets_returns_reply:
  assumes "raises (cam s) (trace s) (GetPresets (token (profile s))) = None"
  shows "fst (list_presets s) = Inr (presets_reply (cam s) (trace s))
       \<and> (presets_reply (cam s) (trace s) = [] \<longrightarrow> fst (list_presets s) = Inr [])
       \<and> trace (snd (list_presets s)) = trace s @ [GetPresets (token (profile s))]"
  using assms by (simp add: list_presets_def invoke_def)

theorem list_presets_returns_reply_witness:
  "raises (cam quiet_controller) (trace quiet_controller)
     (GetPresets (token (profile quiet_controller))) = None
   \<and> presets_reply (cam quiet_controller) (trace quiet_controller) = []
   \<and> fst (list_presets quiet_controller) = Inr []"
  using list_presets_returns_reply [of quiet_controller]
  by (simp add: quiet_controller_def new_controller_def quiet_camera_def)

text \<open>What \<^verbatim>\<open>set_preset\<close> returns and prints, in both files, when the \<^verbatim>\<open>SetPreset\<close> call
  returns: for a response that is \<^verbatim>\<open>None\<close> or has no \<^verbatim>\<open>PresetToken\<close> attribute, the
  empty string, with the warning in \<^verbatim>\<open>ptz_controller.py\<close> only; for an attribute that
  holds a token, the token; for an attribute that is \<^verbatim>\<open>None\<close>, \<^verbatim>\<open>None\<close>, with nothing
  printed in either file.\<close>

lemma set_preset_cases:
  assumes "raises (cam s) (trace s)
             (SetPreset ((request_setpreset s)\<lparr>sp_PresetName := Some name\<rparr>)) = None"
  shows "set_preset_reply (cam s) (trace s) = None
           \<or> (\<exists>resp. set_preset_reply (cam s) (trace s) = Some resp \<and> PresetToken resp = Absent) \<longrightarrow>
            fst (set_preset name s) = Inr (Some [])
          \<and> console (snd (set_preset name s)) =
              console s @ [''Warning: No PresetToken returned from camera.'']
          \<and> fst (set_preset_kb name s) = Inr (Some [])
          \<and> console (snd (set_preset_kb name s)) = console s"
    and "\<forall>resp t. set_preset_reply (cam s) (trace s) = Some resp \<longrightarrow> PresetToken resp = Val t \<longrightarrow>
            fst (set_preset name s) = Inr (Some t) \<and> console (snd (set_preset name s)) = console s
          \<and> fst (set_preset_kb name s) = Inr (Some t)
          \<and> console (snd (set_preset_kb name s)) = console s"
    and "\<forall>resp. set_preset_reply (cam s) (trace s) = Some resp \<longrightarrow> PresetToken resp = PyNone \<longrightarrow>
            fst (set_preset name s) = Inr None \<and> console (snd (set_preset name s)) = console s
          \<and> fst (set_preset_kb name s) = Inr None
          \<and> console (snd (set_preset_kb name s)) = console s"
  using assms
  by (auto simp: set_preset_def set_preset_kb_def invoke_def Let_def split: option.splits)

text \<open>
  C7. The claim fails for \<^verbatim>\<open>ptz_control_with_keyboard.py\<close>, where
  \<^verbatim>\<open>ptz_controller.py\<close> does what it says. For a camera that answers \<^verbatim>\<open>SetPreset\<close> with
  \<^verbatim>\<open>None\<close>, and for one whose response has no \<^verbatim>\<open>PresetToken\<close> attribute,
  \<^verbatim>\<open>set_preset\<close> of the keyboard file returns the empty string and prints nothing: nothing
  beside the empty string tells that the token is missing. On the same cameras
  \<^verbatim>\<open>set_preset\<close> of \<^verbatim>\<open>ptz_controller.py\<close> returns the empty string and prints the
  warning.
\<close>

theorem set_preset_kb_silent:
  "set_preset_reply (cam quiet_controller) (trace quiet_controller) = None
   \<and> set_preset_kb ''Home'' quiet_controller =
       (Inr (Some []),
        quiet_controller
          \<lparr>trace := session_calls @
             [SetPreset \<lparr>sp_ProfileToken = ''Profile_1'', sp_PresetName = Some ''Home''\<rparr>],
           console := [],
           request_setpreset :=
             \<lparr>sp_ProfileToken = ''Profile_1'', sp_PresetName = Some ''Home''\<rparr>\<rparr>)
   \<and> set_preset ''Home'' quiet_controller =
       (Inr (Some []),
        quiet_controller
          \<lparr>trace := session_calls @
             [SetPreset \<lparr>sp_ProfileToken = ''Profile_1'', sp_PresetName = Some ''Home''\<rparr>],
           console := [''Warning: No PresetToken returned from camera.''],
           request_setpreset :=
             \<lparr>sp_ProfileToken = ''Profile_1'', sp_PresetName = Some ''Home''\<rparr>\<rparr>)
   \<and> set_preset_reply (cam tokenless_controller) (trace tokenless_controller) =
       Some \<lparr>PresetToken = Absent\<rparr>
   \<and> fst (set_preset_kb ''Home'' tokenless_controller) = Inr (Some [])
   \<and> console (snd (set_preset_kb ''Home'' tokenless_controller)) = []
   \<and> fst (set_preset ''Home'' tokenless_controller) = Inr (Some [])
   \<and> console (snd (set_preset ''Home'' tokenless_controller)) =
       [''Warning: No PresetToken returned from camera.'']"
  by (simp add: set_preset_kb_def set_preset_def invoke_def quiet_controller_def
      tokenless_controller_def new_controller_def quiet_camera_def tokenless_camera_def
      example_profile_def)

text \<open>With a camera that assigns the token 7, both files return it and print nothing.\<close>

lemma set_preset_returns_token:
  "fst (set_preset ''Home'' token_controller) = Inr (Some ''7'')
   \<and> fst (set_preset_kb ''Home'' token_controller) = Inr (Some ''7'')
   \<and> console (snd (set_preset ''Home'' token_controller)) = []
   \<and> console (snd (set_preset_kb ''Home'' token_controller)) = []"
  by (simp add: set_preset_kb_def set_preset_def invoke_def token_controller_def
      new_controller_def quiet_camera_def token_camera_def)

text \<open>What each method leaves behind: the request it changed and the call it made.\<close>

lemma continuous_move_snd:
  "snd (continuous_move pan tilt zoom s) =
     s\<lparr>request_continuous := (request_continuous s)\<lparr>cm_Velocity := Some
          \<lparr>PanTilt_x = normalized_speed pan (max_pan_speed s),
           PanTilt_y = normalized_speed tilt (max_tilt_speed s),
           Zoom_x = normalized_speed zoom (max_zoom_speed s)\<rparr>\<rparr>,
       trace := trace s @ [ContinuousMove ((request_continuous s)\<lparr>cm_Velocity := Some
          \<lparr>PanTilt_x = normalized_speed pan (max_pan_speed s),
           PanTilt_y = normalized_speed tilt (max_tilt_speed s),
           Zoom_x = normalized_speed zoom (max_zoom_speed s)\<rparr>\<rparr>)]\<rparr>"
  by (simp add: continuous_move_def invoke_def)

lemma continuous_move_kb_eq: "continuous_move_kb = continuous_move"
  by (simp add: fun_eq_iff continuous_move_kb_def continuous_move_def
      normalized_speed_kb_def normalized_speed_def)

lemma continuous_move_fst:
  "fst (continuous_move pan tilt zoom s) =
     (case raises (cam s) (trace s) (ContinuousMove ((request_continuous s)\<lparr>cm_Velocity := Some
          \<lparr>PanTilt_x = normalized_speed pan (max_pan_speed s),
           PanTilt_y = normalized_speed tilt (max_tilt_speed s),
           Zoom_x = normalized_speed zoom (max_zoom_speed s)\<rparr>\<rparr>)) of
        Some e \<Rightarrow> Inl e | None \<Rightarrow> Inr ())"
  by (simp add: continuous_move_def invoke_def)

lemma stop_snd:
  "snd (stop pan_tilt zoom s) =
     s\<lparr>request_stop := (request_stop s)\<lparr>st_PanTilt := Some pan_tilt, st_Zoom := Some zoom\<rparr>,
       trace := trace s @ [Stop ((request_stop s)\<lparr>st_PanTilt := Some pan_tilt, st_Zoom := Some zoom\<rparr>)]\<rparr>"
  by (simp add: stop_def invoke_def)

lemma stop_fst:
  "fst (stop pan_tilt zoom s) =
     (case raises (cam s) (trace s)
        (Stop ((request_stop s)\<lparr>st_PanTilt := Some pan_tilt, st_Zoom := Some zoom\<rparr>)) of
        Some e \<Rightarrow> Inl e | None \<Rightarrow> Inr ())"
  by (simp add: stop_def invoke_def)

lemma go_to_preset_snd:
  "snd (go_to_preset t s) =
     s\<lparr>request_gotopreset := (request_gotopreset s)\<lparr>gp_PresetToken := Some t\<rparr>,
       trace := trace s @ [GotoPreset ((request_gotopreset s)\<lparr>gp_PresetToken := Some t\<rparr>)]\<rparr>"
  by (simp add: go_to_preset_def invoke_def)

lemma list_presets_snd:
  "snd (list_presets s) = s\<lparr>trace := trace s @ [GetPresets (token (profile s))]\<rparr>"
  by (simp add: list_presets_def invoke_def split: option.splits)

lemma set_preset_kb_snd:
  "snd (set_preset_kb name s) =
     s\<lparr>request_setpreset := (request_setpreset s)\<lparr>sp_PresetName := Some name\<rparr>,
       trace := trace s @ [SetPreset ((request_setpreset s)\<lparr>sp_PresetName := Some name\<rparr>)]\<rparr>"
  by (simp add: set_preset_kb_def invoke_def Let_def split: option.splits attr.splits)

lemma set_preset_frame:
  "trace (snd (set_preset name s)) =
     trace s @ [SetPreset ((request_setpreset s)\<lparr>sp_PresetName := Some name\<rparr>)]"
  "request_setpreset (snd (set_preset name s)) = (request_setpreset s)\<lparr>sp_PresetName := Some name\<rparr>"
  "request_continuous (snd (set_preset name s)) = request_continuous s"
  "request_stop (snd (set_preset name s)) = request_stop s"
  "request_gotopreset (snd (set_preset name s)) = request_gotopreset s"
  "profile (snd (set_preset name s)) = profile s"
  "cam (snd (set_preset name s)) = cam s"
  by (simp_all add: set_preset_def invoke_def Let_def split: option.splits attr.splits)

lemma open_session_profile:
  "open_session config c = Inr (tr, p) \<Longrightarrow> \<exists>ps. profiles_reply c = p # ps"
  by (auto simp: open_session_def split: sum.splits list.splits)

lemma new_controller_tokens:
  "request_tokens (new_controller c tr p l) = [token p, token p, token p, token p]"
  "profile (new_controller c tr p l) = p"
  "cam (new_controller c tr p l) = c"
  "trace (new_controller c tr p l) = tr"
  by (simp_all add: new_controller_def request_tokens_def)

lemma read_pan_tilt_frame:
  "request_tokens (snd (read_pan_tilt sp s)) = request_tokens s"
  "profile (snd (read_pan_tilt sp s)) = profile s"
  "cam (snd (read_pan_tilt sp s)) = cam s"
  "trace (snd (read_pan_tilt sp s)) = trace s"
  by (simp_all add: read_pan_tilt_def request_tokens_def Let_def split: attr.splits list.splits)

lemma read_zoom_frame:
  "request_tokens (snd (read_zoom sp s)) = request_tokens s"
  "profile (snd (read_zoom sp s)) = profile s"
  "cam (snd (read_zoom sp s)) = cam s"
  "trace (snd (read_zoom sp s)) = trace s"
  by (simp_all add: read_zoom_def request_tokens_def split: attr.splits list.splits)

lemma snd_seq:
  "snd (seq m k s) = (case fst (m s) of Inl e \<Rightarrow> snd (m s) | Inr u \<Rightarrow> snd (k (snd (m s))))"
  by (simp add: seq_def split: prod.splits sum.splits)

lemma fst_seq:
  "fst (seq m k s) = (case fst (m s) of Inl e \<Rightarrow> Inl e | Inr u \<Rightarrow> fst (k (snd (m s))))"
  by (simp add: seq_def split: prod.splits sum.splits)

lemma read_limits_frame:
  "request_tokens (read_limits opts s) = request_tokens s"
  "profile (read_limits opts s) = profile s"
  "cam (read_limits opts s) = cam s"
  "trace (read_limits opts s) = trace s"
  by (simp_all add: read_limits_def snd_seq read_pan_tilt_frame read_zoom_frame
      split: option.splits attr.splits sum.splits)

text \<open>
  C10. Every method of the controller, in both files, leaves the \<^verbatim>\<open>ProfileToken\<close> of the
  four request objects and the chosen profile as they were. A construction that succeeds
  has chosen the first profile the camera reported and has put its token into the four
  requests. From then on the call made by a method is addressed to that token.
\<close>

theorem profile_token_fixed:
  "request_tokens (snd (continuous_move pan tilt zoom s)) = request_tokens s
   \<and> request_tokens (snd (continuous_move_kb pan tilt zoom s)) = request_tokens s
   \<and> request_tokens (snd (stop pan_tilt zoom_axis s)) = request_tokens s
   \<and> request_tokens (snd (go_to_preset preset_token s)) = request_tokens s
   \<and> request_tokens (snd (set_preset name s)) = request_tokens s
   \<and> request_tokens (snd (set_preset_kb name s)) = request_tokens s
   \<and> request_tokens (snd (list_presets s)) = request_tokens s
   \<and> profile (snd (continuous_move pan tilt zoom s)) = profile s
   \<and> profile (snd (continuous_move_kb pan tilt zoom s)) = profile s
   \<and> profile (snd (stop pan_tilt zoom_axis s)) = profile s
   \<and> profile (snd (go_to_preset preset_token s)) = profile s
   \<and> profile (snd (set_preset name s)) = profile s
   \<and> profile (snd (set_preset_kb name s)) = profile s
   \<and> profile (snd (list_presets s)) = profile s
   \<and> (PTZController_init config c = Inr s0 \<longrightarrow>
        (\<exists>ps. profiles_reply c = profile s0 # ps)
        \<and> request_tokens s0 =
            [token (profile s0), token (profile s0), token (profile s0), token (profile s0)])
   \<and> (PTZController_init_kb config c = Inr s0 \<longrightarrow>
        (\<exists>ps. profiles_reply c = profile s0 # ps)
        \<and> request_tokens s0 =
            [token (profile s0), token (profile s0), token (profile s0), token (profile s0)])
   \<and> (request_tokens s =
         [token (profile s), token (profile s), token (profile s), token (profile s)] \<longrightarrow>
        target (last (trace (snd (continuous_move pan tilt zoom s)))) = Some (token (profile s))
        \<and> target (last (trace (snd (continuous_move_kb pan tilt zoom s)))) = Some (token (profile s))
        \<and> target (last (trace (snd (stop pan_tilt zoom_axis s)))) = Some (token (profile s))
        \<and> target (last (trace (snd (go_to_preset preset_token s)))) = Some (token (profile s))
        \<and> target (last (trace (snd (set_preset name s)))) = Some (token (profile s))
        \<and> target (last (trace (snd (set_preset_kb name s)))) = Some (token (profile s))
        \<and> target (last (trace (snd (list_presets s)))) = Some (token (profile s)))"
proof -
  have ops: "request_tokens (snd (continuous_move pan tilt zoom s)) = request_tokens s"
    "request_tokens (snd (stop pan_tilt zoom_axis s)) = request_tokens s"
    "request_tokens (snd (go_to_preset preset_token s)) = request_tokens s"
    "request_tokens (snd (set_preset name s)) = request_tokens s"
    "request_tokens (snd (set_preset_kb name s)) = request_tokens s"
    "request_tokens (snd (list_presets s)) = request_tokens s"
    "profile (snd (continuous_move pan tilt zoom s)) = profile s"
    "profile (snd (stop pan_tilt zoom_axis s)) = profile s"
    "profile (snd (go_to_preset preset_token s)) = profile s"
    "profile (snd (set_preset name s)) = profile s"
    "profile (snd (set_preset_kb name s)) = profile s"
    "profile (snd (list_presets s)) = profile s"
    by (simp_all add: request_tokens_def continuous_move_snd stop_snd go_to_preset_snd
        set_preset_frame set_preset_kb_snd list_presets_snd)
  have init: "(\<exists>ps. profiles_reply c = profile s0 # ps)
        \<and> request_tokens s0 =
            [token (profile s0), token (profile s0), token (profile s0), token (profile s0)]"
    if "PTZController_init config c = Inr s0"
    using that
    by (auto simp: PTZController_init_def read_limits_frame new_controller_tokens
        dest: open_session_profile split: sum.splits option.splits prod.splits)
  have init_kb: "(\<exists>ps. profiles_reply c = profile s0 # ps)
        \<and> request_tokens s0 =
            [token (profile s0), token (profile s0), token (profile s0), token (profile s0)]"
    if "PTZController_init_kb config c = Inr s0"
    using that
    by (auto simp: PTZController_init_kb_def new_controller_tokens
        dest: open_session_profile split: sum.splits option.splits prod.splits if_splits)
  have sent: "target (last (trace (snd (continuous_move pan tilt zoom s)))) = Some (token (profile s))
        \<and> target (last (trace (snd (stop pan_tilt zoom_axis s)))) = Some (token (profile s))
        \<and> target (last (trace (snd (go_to_preset preset_token s)))) = Some (token (profile s))
        \<and> target (last (trace (snd (set_preset name s)))) = Some (token (profile s))
        \<and> target (last (trace (snd (set_preset_kb name s)))) = Some (token (profile s))
        \<and> target (last (trace (snd (list_presets s)))) = Some (token (profile s))"
    if "request_tokens s =
         [token (profile s), token (profile s), token (profile s), token (profile s)]"
    using that
    by (simp add: request_tokens_def continuous_move_snd stop_snd go_to_preset_snd
        set_preset_frame set_preset_kb_snd list_presets_snd)
  show ?thesis
    using ops init init_kb sent by (simp only: continuous_move_kb_eq) blast
qed

theorem profile_token_fixed_witness:
  "PTZController_init CameraConfig_default quiet_camera = Inr quiet_controller
   \<and> PTZController_init_kb CameraConfig_default quiet_camera = Inr quiet_controller
   \<and> token (profile quiet_controller) = ''Profile_1''
   \<and> request_tokens quiet_controller = [''Profile_1'', ''Profile_1'', ''Profile_1'', ''Profile_1'']
   \<and> request_tokens (snd (stop True True quiet_controller)) =
       [''Profile_1'', ''Profile_1'', ''Profile_1'', ''Profile_1'']
   \<and> target (last (trace (snd (stop True True quiet_controller)))) = Some ''Profile_1''"
proof -
  have i: "PTZController_init CameraConfig_default quiet_camera = Inr quiet_controller"
    by (simp add: PTZController_init_def open_session_def CameraConfig_default_def
      quiet_camera_def quiet_controller_def new_controller_def example_profile_def
      example_options_def session_calls_def read_limits_def seq_def read_pan_tilt_def
      read_zoom_def default_limits_def)
  have k: "PTZController_init_kb CameraConfig_default quiet_camera = Inr quiet_controller"
    by (simp add: PTZController_init_kb_def open_session_def CameraConfig_default_def
      quiet_camera_def quiet_controller_def new_controller_def example_profile_def
      example_options_def session_calls_def discover_kb_def default_limits_def)
  have t: "token (profile quiet_controller) = ''Profile_1''"
    by (simp add: quiet_controller_def new_controller_def example_profile_def)
  show ?thesis
    using profile_token_fixed [of 0 0 0 quiet_controller True True "''1''" "''Home''"
        CameraConfig_default quiet_camera quiet_controller] i k t
    by simp
qed

section \<open>Movement bursts\<close>

text \<open>A burst is the sequence \<^verbatim>\<open>continuous_move\<close>, \<^verbatim>\<open>time.sleep\<close>,
  \<^verbatim>\<open>stop\<close> that a movement key or menu choice runs.\<close>

lemma burst_calls:
  assumes "raises (cam s) (trace s)
             (ContinuousMove ((request_continuous s)\<lparr>cm_Velocity := Some
                \<lparr>PanTilt_x = normalized_speed pan (max_pan_speed s),
                 PanTilt_y = normalized_speed tilt (max_tilt_speed s),
                 Zoom_x = normalized_speed zoom (max_zoom_speed s)\<rparr>\<rparr>)) = None"
    and "raises (cam s)
           (trace s @ [ContinuousMove ((request_continuous s)\<lparr>cm_Velocity := Some
                \<lparr>PanTilt_x = normalized_speed pan (max_pan_speed s),
                 PanTilt_y = normalized_speed tilt (max_tilt_speed s),
                 Zoom_x = normalized_speed zoom (max_zoom_speed s)\<rparr>\<rparr>)])
           (Sleep d) = None"
  shows "trace (snd (seq (continuous_move pan tilt zoom)
                  (seq (invoke (Sleep d)) (stop pan_tilt zoom_axis)) s)) =
           trace s @
             [ContinuousMove ((request_continuous s)\<lparr>cm_Velocity := Some
                \<lparr>PanTilt_x = normalized_speed pan (max_pan_speed s),
                 PanTilt_y = normalized_speed tilt (max_tilt_speed s),
                 Zoom_x = normalized_speed zoom (max_zoom_speed s)\<rparr>\<rparr>),
              Sleep d,
              Stop ((request_stop s)\<lparr>st_PanTilt := Some pan_tilt, st_Zoom := Some zoom_axis\<rparr>)]"
  using assms
  by (simp add: snd_seq fst_seq continuous_move_fst continuous_move_snd fst_invoke snd_invoke
      stop_snd)

lemma burst_move_raises:
  assumes "raises (cam s) (trace s)
             (ContinuousMove ((request_continuous s)\<lparr>cm_Velocity := Some
                \<lparr>PanTilt_x = normalized_speed pan (max_pan_speed s),
                 PanTilt_y = normalized_speed tilt (max_tilt_speed s),
                 Zoom_x = normalized_speed zoom (max_zoom_speed s)\<rparr>\<rparr>)) = Some e"
  shows "seq (continuous_move pan tilt zoom)
           (seq (invoke (Sleep d)) (stop pan_tilt zoom_axis)) s =
         (Inl e, snd (continuous_move pan tilt zoom s))"
  using assms
  by (simp add: prod_eq_iff snd_seq fst_seq continuous_move_fst)

lemma burst_sleep_raises:
  assumes "raises (cam s) (trace s)
             (ContinuousMove ((request_continuous s)\<lparr>cm_Velocity := Some
                \<lparr>PanTilt_x = normalized_speed pan (max_pan_speed s),
                 PanTilt_y = normalized_speed tilt (max_tilt_speed s),
                 Zoom_x = normalized_speed zoom (max_zoom_speed s)\<rparr>\<rparr>)) = None"
    and "raises (cam s)
           (trace s @ [ContinuousMove ((request_continuous s)\<lparr>cm_Velocity := Some
                \<lparr>PanTilt_x = normalized_speed pan (max_pan_speed s),
                 PanTilt_y = normalized_speed tilt (max_tilt_speed s),
                 Zoom_x = normalized_speed zoom (max_zoom_speed s)\<rparr>\<rparr>)])
           (Sleep d) = Some e"
  shows "seq (continuous_move pan tilt zoom)
           (seq (invoke (Sleep d)) (stop pan_tilt zoom_axis)) s =
         (Inl e, snd (invoke (Sleep d) (snd (continuous_move pan tilt zoom s))))"
  using assms
  by (simp add: prod_eq_iff snd_seq fst_seq continuous_move_fst continuous_move_snd fst_invoke
      snd_invoke)

lemma key_of_esc: "key_of (CHR 0x1B) = [CHR 0x1B]"
  by (simp add: key_of_def lower_ascii_def)

lemma key_of_not_esc: "key_of ch = [k] \<Longrightarrow> k \<noteq> CHR 0x1B \<Longrightarrow> ch \<noteq> CHR 0x1B"
  using key_of_esc by auto

lemma key_of_not_prefix: "key_of ch = [k] \<Longrightarrow> ch \<noteq> CHR 0xE0"
  by (rule notI) (simp add: key_of_def)

lemma fst_ends: "fst (ends ctl r) = (case fst r of Inl e \<Rightarrow> Inl e | Inr x \<Rightarrow> Inr ctl)"
  by (simp add: ends_def split: prod.splits sum.splits)

lemma snd_ends: "snd (ends ctl r) = snd r"
  by (simp add: ends_def split: prod.splits sum.splits)

lemma kb_key_pan_tilt:
  assumes "(key_of ch, pan, tilt) \<in> set [(''w'', 0, 1), (''s'', 0, - 1), (''a'', - 1, 0), (''d'', 1, 0)]"
  shows "kb_key ch lines s =
           Some (ends Continue
             (seq (continuous_move_kb (pan * move_speed_kb) (tilt * move_speed_kb) 0)
               (seq (invoke (Sleep move_duration_sec_kb)) (stop True True)) s), 0)"
proof -
  from assms have k: "key_of ch = ''w'' \<and> pan = 0 \<and> tilt = 1 \<or> key_of ch = ''s'' \<and> pan = 0 \<and> tilt = - 1
      \<or> key_of ch = ''a'' \<and> pan = - 1 \<and> tilt = 0 \<or> key_of ch = ''d'' \<and> pan = 1 \<and> tilt = 0"
    by simp
  then have "ch \<noteq> CHR 0x1B"
    using key_of_esc by auto
  with k show ?thesis
    by (elim disjE conjE) (simp_all add: kb_key_def Let_def move_speed_kb_def)
qed

lemma kb_arrow_pan_tilt:
  assumes "(ch2, pan, tilt) \<in> set [(CHR ''H'', 0, 1), (CHR ''P'', 0, - 1), (CHR ''K'', - 1, 0), (CHR ''M'', 1, 0)]"
  shows "kb_arrow ch2 s =
           seq (continuous_move_kb (pan * move_speed_kb) (tilt * move_speed_kb) 0)
               (seq (invoke (Sleep move_duration_sec_kb)) (stop True True)) s"
  using assms by (auto simp: kb_arrow_def move_speed_kb_def)

lemma cli_choice_pan_tilt:
  assumes "(choice, pan, tilt) \<in> set [(''1'', - 1, 0), (''2'', 1, 0), (''3'', 0, 1), (''4'', 0, - 1)]"
  shows "cli_choice choice rest s =
           Some (ends Continue
             (seq (continuous_move (pan * move_speed) (tilt * move_speed) 0)
               (seq (invoke (Sleep move_duration_sec)) (stop True True)) s), 0)"
proof -
  from assms have "choice = ''1'' \<and> pan = - 1 \<and> tilt = 0 \<or> choice = ''2'' \<and> pan = 1 \<and> tilt = 0
      \<or> choice = ''3'' \<and> pan = 0 \<and> tilt = 1 \<or> choice = ''4'' \<and> pan = 0 \<and> tilt = - 1"
    by simp
  then show ?thesis
    by (elim disjE conjE) (simp_all add: cli_choice_def move_speed_def)
qed

text \<open>
  C6. A pan or tilt burst whose move and wait return makes exactly three calls, in this
  order: one \<^verbatim>\<open>ContinuousMove\<close>, one \<^verbatim>\<open>time.sleep\<close> of the burst duration (0.3 for
  the keys \<^verbatim>\<open>w s a d\<close> and the arrow keys, 0.5 for the menu choices 1 to 4), one
  \<^verbatim>\<open>Stop\<close> with \<^verbatim>\<open>PanTilt\<close> and \<^verbatim>\<open>Zoom\<close> both true. That the sleep lasts at least
  its duration is the contract of \<^verbatim>\<open>time.sleep\<close>, which the model records as the call.
\<close>

theorem pan_tilt_burst_calls:
  "((key_of ch, pan, tilt) \<in> set [(''w'', 0, 1), (''s'', 0, - 1), (''a'', - 1, 0), (''d'', 1, 0)]
     \<longrightarrow> req = (request_continuous s)\<lparr>cm_Velocity := Some
                \<lparr>PanTilt_x = normalized_speed_kb pan (max_pan_speed s),
                 PanTilt_y = normalized_speed_kb tilt (max_tilt_speed s),
                 Zoom_x = normalized_speed_kb 0 (max_zoom_speed s)\<rparr>\<rparr>
     \<longrightarrow> raises (cam s) (trace s) (ContinuousMove req) = None
     \<longrightarrow> raises (cam s) (trace s @ [ContinuousMove req]) (Sleep 0.3) = None
     \<longrightarrow> (\<exists>r s'. kb_key ch lines s = Some ((r, s'), 0)
          \<and> trace s' = trace s @
               [ContinuousMove req, Sleep 0.3,
                Stop ((request_stop s)\<lparr>st_PanTilt := Some True, st_Zoom := Some True\<rparr>)]))
   \<and> ((arrow, pan, tilt) \<in> set [(CHR ''H'', 0, 1), (CHR ''P'', 0, - 1), (CHR ''K'', - 1, 0), (CHR ''M'', 1, 0)]
     \<longrightarrow> req = (request_continuous s)\<lparr>cm_Velocity := Some
                \<lparr>PanTilt_x = normalized_speed_kb pan (max_pan_speed s),
                 PanTilt_y = normalized_speed_kb tilt (max_tilt_speed s),
                 Zoom_x = normalized_speed_kb 0 (max_zoom_speed s)\<rparr>\<rparr>
     \<longrightarrow> raises (cam s) (trace s) (ContinuousMove req) = None
     \<longrightarrow> raises (cam s) (trace s @ [ContinuousMove req]) (Sleep 0.3) = None
     \<longrightarrow> (\<exists>r s'. kb_arrow arrow s = (r, s')
          \<and> trace s' = trace s @
               [ContinuousMove req, Sleep 0.3,
                Stop ((request_stop s)\<lparr>st_PanTilt := Some True, st_Zoom := Some True\<rparr>)]))
   \<and> ((choice, pan, tilt) \<in> set [(''1'', - 1, 0), (''2'', 1, 0), (''3'', 0, 1), (''4'', 0, - 1)]
     \<longrightarrow> req = (request_continuous s)\<lparr>cm_Velocity := Some
                \<lparr>PanTilt_x = normalized_speed (pan * 0.5) (max_pan_speed s),
                 PanTilt_y = normalized_speed (tilt * 0.5) (max_tilt_speed s),
                 Zoom_x = normalized_speed 0 (max_zoom_speed s)\<rparr>\<rparr>
     \<longrightarrow> raises (cam s) (trace s) (ContinuousMove req) = None
     \<longrightarrow> raises (cam s) (trace s @ [ContinuousMove req]) (Sleep 0.5) = None
     \<longrightarrow> (\<exists>r s'. cli_choice choice rest s = Some ((r, s'), 0)
          \<and> trace s' = trace s @
               [ContinuousMove req, Sleep 0.5,
                Stop ((request_stop s)\<lparr>st_PanTilt := Some True, st_Zoom := Some True\<rparr>)]))"
proof (intro conjI impI)
  assume mem: "(key_of ch, pan, tilt) \<in> set [(''w'', 0, 1), (''s'', 0, - 1), (''a'', - 1, 0), (''d'', 1, 0)]"
    and r: "req = (request_continuous s)\<lparr>cm_Velocity := Some
                \<lparr>PanTilt_x = normalized_speed_kb pan (max_pan_speed s),
                 PanTilt_y = normalized_speed_kb tilt (max_tilt_speed s),
                 Zoom_x = normalized_speed_kb 0 (max_zoom_speed s)\<rparr>\<rparr>"
    and m: "raises (cam s) (trace s) (ContinuousMove req) = None"
    and w: "raises (cam s) (trace s @ [ContinuousMove req]) (Sleep 0.3) = None"
  have k: "kb_key ch lines s =
           Some (ends Continue
             (seq (continuous_move (pan * move_speed_kb) (tilt * move_speed_kb) 0)
               (seq (invoke (Sleep move_duration_sec_kb)) (stop True True)) s), 0)"
    using kb_key_pan_tilt [OF mem, of lines s] by (simp only: continuous_move_kb_eq)
  have "trace (snd (seq (continuous_move (pan * move_speed_kb) (tilt * move_speed_kb) 0)
               (seq (invoke (Sleep move_duration_sec_kb)) (stop True True)) s)) =
        trace s @ [ContinuousMove req, Sleep 0.3,
                Stop ((request_stop s)\<lparr>st_PanTilt := Some True, st_Zoom := Some True\<rparr>)]"
    using burst_calls [of s "pan * move_speed_kb" "tilt * move_speed_kb" 0 move_duration_sec_kb True True] m w
    unfolding r
    by (simp add: move_speed_kb_def move_duration_sec_kb_def normalized_speed_kb_def
        normalized_speed_def)
  with k show "\<exists>r s'. kb_key ch lines s = Some ((r, s'), 0)
          \<and> trace s' = trace s @
               [ContinuousMove req, Sleep 0.3,
                Stop ((request_stop s)\<lparr>st_PanTilt := Some True, st_Zoom := Some True\<rparr>)]"
    by (metis snd_ends prod.collapse)
next
  assume mem: "(arrow, pan, tilt) \<in> set [(CHR ''H'', 0, 1), (CHR ''P'', 0, - 1), (CHR ''K'', - 1, 0), (CHR ''M'', 1, 0)]"
    and r: "req = (request_continuous s)\<lparr>cm_Velocity := Some
                \<lparr>PanTilt_x = normalized_speed_kb pan (max_pan_speed s),
                 PanTilt_y = normalized_speed_kb tilt (max_tilt_speed s),
                 Zoom_x = normalized_speed_kb 0 (max_zoom_speed s)\<rparr>\<rparr>"
    and m: "raises (cam s) (trace s) (ContinuousMove req) = None"
    and w: "raises (cam s) (trace s @ [ContinuousMove req]) (Sleep 0.3) = None"
  have k: "kb_arrow arrow s =
             seq (continuous_move (pan * move_speed_kb) (tilt * move_speed_kb) 0)
               (seq (invoke (Sleep move_duration_sec_kb)) (stop True True)) s"
    using kb_arrow_pan_tilt [OF mem, of s] by (simp only: continuous_move_kb_eq)
  have "trace (snd (seq (continuous_move (pan * move_speed_kb) (tilt * move_speed_kb) 0)
               (seq (invoke (Sleep move_duration_sec_kb)) (stop True True)) s)) =
        trace s @ [ContinuousMove req, Sleep 0.3,
                Stop ((request_stop s)\<lparr>st_PanTilt := Some True, st_Zoom := Some True\<rparr>)]"
    using burst_calls [of s "pan * move_speed_kb" "tilt * move_speed_kb" 0 move_duration_sec_kb True True] m w
    unfolding r
    by (simp add: move_speed_kb_def move_duration_sec_kb_def normalized_speed_kb_def
        normalized_speed_def)
  with k show "\<exists>r s'. kb_arrow arrow s = (r, s')
          \<and> trace s' = trace s @
               [ContinuousMove req, Sleep 0.3,
                Stop ((request_stop s)\<lparr>st_PanTilt := Some True, st_Zoom := Some True\<rparr>)]"
    by (metis prod.collapse)
next
  assume mem: "(choice, pan, tilt) \<in> set [(''1'', - 1, 0), (''2'', 1, 0), (''3'', 0, 1), (''4'', 0, - 1)]"
    and r: "req = (request_continuous s)\<lparr>cm_Velocity := Some
                \<lparr>PanTilt_x = normalized_speed (pan * 0.5) (max_pan_speed s),
                 PanTilt_y = normalized_speed (tilt * 0.5) (max_tilt_speed s),
                 Zoom_x = normalized_speed 0 (max_zoom_speed s)\<rparr>\<rparr>"
    and m: "raises (cam s) (trace s) (ContinuousMove req) = None"
    and w: "raises (cam s) (trace s @ [ContinuousMove req]) (Sleep 0.5) = None"
  have k: "cli_choice choice rest s =
           Some (ends Continue
             (seq (continuous_move (pan * move_speed) (tilt * move_speed) 0)
               (seq (invoke (Sleep move_duration_sec)) (stop True True)) s), 0)"
    using mem by (rule cli_choice_pan_tilt)
  have "trace (snd (seq (continuous_move (pan * move_speed) (tilt * move_speed) 0)
               (seq (invoke (Sleep move_duration_sec)) (stop True True)) s)) =
        trace s @ [ContinuousMove req, Sleep 0.5,
                Stop ((request_stop s)\<lparr>st_PanTilt := Some True, st_Zoom := Some True\<rparr>)]"
    using burst_calls [of s "pan * move_speed" "tilt * move_speed" 0 move_duration_sec True True] m w
    unfolding r
    by (simp add: move_speed_def move_duration_sec_def)
  with k show "\<exists>r s'. cli_choice choice rest s = Some ((r, s'), 0)
          \<and> trace s' = trace s @
               [ContinuousMove req, Sleep 0.5,
                Stop ((request_stop s)\<lparr>st_PanTilt := Some True, st_Zoom := Some True\<rparr>)]"
    by (metis snd_ends prod.collapse)
qed

theorem pan_tilt_burst_calls_witness:
  "(\<exists>r s'. kb_key CHR ''d'' [] quiet_controller = Some ((r, s'), 0)
      \<and> trace s' = session_calls @
          [ContinuousMove \<lparr>cm_ProfileToken = ''Profile_1'', cm_Velocity =
             Some \<lparr>PanTilt_x = 0.7, PanTilt_y = 0, Zoom_x = 0\<rparr>\<rparr>,
           Sleep 0.3,
           Stop \<lparr>st_ProfileToken = ''Profile_1'', st_PanTilt = Some True, st_Zoom = Some True\<rparr>])
   \<and> (\<exists>r s'. kb_arrow CHR ''M'' quiet_controller = (r, s')
      \<and> trace s' = session_calls @
          [ContinuousMove \<lparr>cm_ProfileToken = ''Profile_1'', cm_Velocity =
             Some \<lparr>PanTilt_x = 0.7, PanTilt_y = 0, Zoom_x = 0\<rparr>\<rparr>,
           Sleep 0.3,
           Stop \<lparr>st_ProfileToken = ''Profile_1'', st_PanTilt = Some True, st_Zoom = Some True\<rparr>])
   \<and> (\<exists>r s'. cli_choice ''2'' [] quiet_controller = Some ((r, s'), 0)
      \<and> trace s' = session_calls @
          [ContinuousMove \<lparr>cm_ProfileToken = ''Profile_1'', cm_Velocity =
             Some \<lparr>PanTilt_x = 0.35, PanTilt_y = 0, Zoom_x = 0\<rparr>\<rparr>,
           Sleep 0.5,
           Stop \<lparr>st_ProfileToken = ''Profile_1'', st_PanTilt = Some True, st_Zoom = Some True\<rparr>])"
proof -
  have q: "cam quiet_controller = quiet_camera" "raises quiet_camera = (\<lambda>tr c. None)"
    "trace quiet_controller = session_calls"
    "request_continuous quiet_controller = \<lparr>cm_ProfileToken = ''Profile_1'', cm_Velocity = None\<rparr>"
    "request_stop quiet_controller =
       \<lparr>st_ProfileToken = ''Profile_1'', st_PanTilt = None, st_Zoom = None\<rparr>"
    "max_pan_speed quiet_controller = 0.7" "max_tilt_speed quiet_controller = 0.6"
    "max_zoom_speed quiet_controller = 0.4"
    by (simp_all add: quiet_controller_def new_controller_def quiet_camera_def example_profile_def)
  have k: "key_of CHR ''d'' = ''d''"
    by (simp add: key_of_def lower_ascii_def)
  show ?thesis
    using pan_tilt_burst_calls [where ch = "CHR ''d''" and pan = 1 and tilt = 0
        and s = quiet_controller and lines = "[]" and arrow = "CHR ''M''" and choice = "''2''"
        and rest = "[]"
        and req = "\<lparr>cm_ProfileToken = ''Profile_1'', cm_Velocity =
             Some \<lparr>PanTilt_x = 0.7, PanTilt_y = 0, Zoom_x = 0\<rparr>\<rparr>"]
      pan_tilt_burst_calls [where ch = "CHR ''d''" and pan = 1 and tilt = 0
        and s = quiet_controller and lines = "[]" and arrow = "CHR ''M''" and choice = "''2''"
        and rest = "[]"
        and req = "\<lparr>cm_ProfileToken = ''Profile_1'', cm_Velocity =
             Some \<lparr>PanTilt_x = 0.35, PanTilt_y = 0, Zoom_x = 0\<rparr>\<rparr>"]
    by (simp add: q k normalized_speed_kb_def normalized_speed_def py_max_def py_min_def)
qed

section \<open>Stopping after a burst\<close>

text \<open>\<^verbatim>\<open>run_keyboard\<close>: whenever the loop is left, by \<^verbatim>\<open>break\<close> or by an exception, the
  last call is the \<^verbatim>\<open>Stop\<close> of the \<^verbatim>\<open>finally\<close> block.\<close>

lemma run_keyboard_loop_last_call:
  assumes "run_keyboard_loop polls lines s = Some (r, s')"
  shows "\<exists>s'' :: controller. trace s' = trace s'' @
           [Stop ((request_stop s'')\<lparr>st_PanTilt := Some True, st_Zoom := Some True\<rparr>)]"
proof -
  from assms obtain r'' s'' e where
    "kb_loop polls lines s = Some (r'', s'')"
    and "(r, s') = stop True True s''
         \<or> (r, s') = (case stop True True s'' of
                        (Inl e', t) \<Rightarrow> (Inl e', t) | (Inr u, t) \<Rightarrow> (Inl e, t))"
    by (auto simp: run_keyboard_loop_def split: option.splits prod.splits sum.splits exn.splits)
  then have "s' = snd (stop True True s'')"
    by (auto split: prod.splits sum.splits)
  then have "trace s' = trace s'' @
           [Stop ((request_stop s'')\<lparr>st_PanTilt := Some True, st_Zoom := Some True\<rparr>)]"
    by (simp add: stop_snd)
  then show ?thesis ..
qed

text \<open>\<^verbatim>\<open>run_keyboard\<close>: when the \<^verbatim>\<open>ContinuousMove\<close> of a pan or tilt key raises, the
  \<^verbatim>\<open>finally\<close> block makes the one \<^verbatim>\<open>Stop\<close> call before the function is left.\<close>

lemma run_keyboard_move_raises:
  assumes mem: "(key_of ch, pan, tilt) \<in> set [(''w'', 0, 1), (''s'', 0, - 1), (''a'', - 1, 0), (''d'', 1, 0)]"
    and r: "req = (request_continuous s)\<lparr>cm_Velocity := Some
                \<lparr>PanTilt_x = normalized_speed_kb pan (max_pan_speed s),
                 PanTilt_y = normalized_speed_kb tilt (max_tilt_speed s),
                 Zoom_x = normalized_speed_kb 0 (max_zoom_speed s)\<rparr>\<rparr>"
    and m: "raises (cam s) (trace s) (ContinuousMove req) = Some e"
  shows "\<exists>x s'. run_keyboard_loop (Some ch # polls) lines s = Some (x, s')
          \<and> trace s' = trace s @
               [ContinuousMove req,
                Stop ((request_stop s)\<lparr>st_PanTilt := Some True, st_Zoom := Some True\<rparr>)]"
proof -
  have k: "kb_key ch lines s =
           Some (ends Continue
             (seq (continuous_move (pan * move_speed_kb) (tilt * move_speed_kb) 0)
               (seq (invoke (Sleep move_duration_sec_kb)) (stop True True)) s), 0)"
    using kb_key_pan_tilt [OF mem, of lines s] by (simp only: continuous_move_kb_eq)
  have b: "seq (continuous_move (pan * move_speed_kb) (tilt * move_speed_kb) 0)
               (seq (invoke (Sleep move_duration_sec_kb)) (stop True True)) s =
           (Inl e, snd (continuous_move (pan * move_speed_kb) (tilt * move_speed_kb) 0 s))"
    using burst_move_raises [of s "pan * move_speed_kb" "tilt * move_speed_kb" 0 e
        move_duration_sec_kb True True] m
    unfolding r
    by (simp add: move_speed_kb_def normalized_speed_kb_def normalized_speed_def)
  from mem have "ch \<noteq> CHR 0xE0"
    by (auto dest: key_of_not_prefix)
  then have l: "kb_loop (Some ch # polls) lines s =
      Some (Inl e, snd (continuous_move (pan * move_speed_kb) (tilt * move_speed_kb) 0 s))"
    by (simp add: k b ends_def)
  have t: "trace (snd (stop True True
             (snd (continuous_move (pan * move_speed_kb) (tilt * move_speed_kb) 0 s)))) =
           trace s @ [ContinuousMove req,
                Stop ((request_stop s)\<lparr>st_PanTilt := Some True, st_Zoom := Some True\<rparr>)]"
    unfolding r
    by (simp add: stop_snd continuous_move_snd move_speed_kb_def normalized_speed_kb_def
        normalized_speed_def)
  obtain x1 s1 where st: "stop True True
             (snd (continuous_move (pan * move_speed_kb) (tilt * move_speed_kb) 0 s)) = (x1, s1)"
    by (rule prod.exhaust)
  with t have "trace s1 = trace s @ [ContinuousMove req,
                Stop ((request_stop s)\<lparr>st_PanTilt := Some True, st_Zoom := Some True\<rparr>)]"
    by simp
  then show ?thesis
    unfolding run_keyboard_loop_def l
    by (cases e; cases x1) (simp_all add: st)
qed

text \<open>\<^verbatim>\<open>run_cli\<close>: when the \<^verbatim>\<open>ContinuousMove\<close> of a movement choice raises, the
  exception leaves the loop and the function at once; the failed call is the last one.\<close>

lemma run_cli_move_raises:
  assumes mem: "(strip l, pan, tilt) \<in> set [(''1'', - 1, 0), (''2'', 1, 0), (''3'', 0, 1), (''4'', 0, - 1)]"
    and r: "req = (request_continuous s)\<lparr>cm_Velocity := Some
                \<lparr>PanTilt_x = normalized_speed (pan * 0.5) (max_pan_speed s),
                 PanTilt_y = normalized_speed (tilt * 0.5) (max_tilt_speed s),
                 Zoom_x = normalized_speed 0 (max_zoom_speed s)\<rparr>\<rparr>"
    and m: "raises (cam s) (trace s) (ContinuousMove req) = Some e"
  shows "run_cli_loop (Line l # rest) s =
           Some (Inl e, s\<lparr>request_continuous := req, trace := trace s @ [ContinuousMove req]\<rparr>)"
proof -
  have k: "cli_choice (strip l) rest s =
           Some (ends Continue
             (seq (continuous_move (pan * move_speed) (tilt * move_speed) 0)
               (seq (invoke (Sleep move_duration_sec)) (stop True True)) s), 0)"
    using mem by (rule cli_choice_pan_tilt)
  have b: "seq (continuous_move (pan * move_speed) (tilt * move_speed) 0)
               (seq (invoke (Sleep move_duration_sec)) (stop True True)) s =
           (Inl e, snd (continuous_move (pan * move_speed) (tilt * move_speed) 0 s))"
    using burst_move_raises [of s "pan * move_speed" "tilt * move_speed" 0 e
        move_duration_sec True True] m
    unfolding r
    by (simp add: move_speed_def)
  have "run_cli_loop (Line l # rest) s =
          Some (Inl e, snd (continuous_move (pan * move_speed) (tilt * move_speed) 0 s))"
    by (simp add: k b ends_def)
  then show ?thesis
    unfolding r by (simp add: continuous_move_snd move_speed_def)
qed

text \<open>\<^verbatim>\<open>run_cli\<close>: the same when Ctrl-C arrives during the wait of the burst.\<close>

lemma run_cli_sleep_interrupted:
  assumes mem: "(strip l, pan, tilt) \<in> set [(''1'', - 1, 0), (''2'', 1, 0), (''3'', 0, 1), (''4'', 0, - 1)]"
    and r: "req = (request_continuous s)\<lparr>cm_Velocity := Some
                \<lparr>PanTilt_x = normalized_speed (pan * 0.5) (max_pan_speed s),
                 PanTilt_y = normalized_speed (tilt * 0.5) (max_tilt_speed s),
                 Zoom_x = normalized_speed 0 (max_zoom_speed s)\<rparr>\<rparr>"
    and m: "raises (cam s) (trace s) (ContinuousMove req) = None"
    and w: "raises (cam s) (trace s @ [ContinuousMove req]) (Sleep 0.5) = Some e"
  shows "run_cli_loop (Line l # rest) s =
           Some (Inl e, s\<lparr>request_continuous := req,
                          trace := trace s @ [ContinuousMove req, Sleep 0.5]\<rparr>)"
proof -
  have k: "cli_choice (strip l) rest s =
           Some (ends Continue
             (seq (continuous_move (pan * move_speed) (tilt * move_speed) 0)
               (seq (invoke (Sleep move_duration_sec)) (stop True True)) s), 0)"
    using mem by (rule cli_choice_pan_tilt)
  have b: "seq (continuous_move (pan * move_speed) (tilt * move_speed) 0)
               (seq (invoke (Sleep move_duration_sec)) (stop True True)) s =
           (Inl e, snd (invoke (Sleep move_duration_sec)
                     (snd (continuous_move (pan * move_speed) (tilt * move_speed) 0 s))))"
    using burst_sleep_raises [of s "pan * move_speed" "tilt * move_speed" 0
        move_duration_sec e True True] m w
    unfolding r
    by (simp add: move_speed_def move_duration_sec_def)
  have "run_cli_loop (Line l # rest) s =
          Some (Inl e, snd (invoke (Sleep move_duration_sec)
                     (snd (continuous_move (pan * move_speed) (tilt * move_speed) 0 s))))"
    by (simp add: k b ends_def)
  then show ?thesis
    unfolding r
    by (simp add: continuous_move_snd snd_invoke move_speed_def move_duration_sec_def)
qed

text \<open>
  C1. The claim holds for \<^verbatim>\<open>run_keyboard\<close> and fails for \<^verbatim>\<open>run_cli\<close>. With a camera
  whose \<^verbatim>\<open>ContinuousMove\<close> raises, the menu choice 1 ends \<^verbatim>\<open>run_cli\<close> with that
  exception and the failed call is the last call made: no \<^verbatim>\<open>Stop\<close>. With the same
  camera, the key \<^verbatim>\<open>a\<close> ends \<^verbatim>\<open>run_keyboard\<close> with the exception after one \<^verbatim>\<open>Stop\<close>.
\<close>

theorem run_cli_move_fails_without_stop:
  "map_option (map_sum id (\<lambda>(r, s). (r, trace s))) (run_cli [Line ''1''] jammed_camera) =
     Some (Inr (Inl Fault,
       session_calls @
         [ContinuousMove \<lparr>cm_ProfileToken = ''Profile_1'', cm_Velocity =
            Some \<lparr>PanTilt_x = - 0.35, PanTilt_y = 0, Zoom_x = 0\<rparr>\<rparr>]))
   \<and> map_option (map_sum id (\<lambda>(r, s). (r, trace s)))
       (run_keyboard [Some CHR ''a''] [] jammed_camera) =
     Some (Inr (Inl Fault,
       session_calls @
         [ContinuousMove \<lparr>cm_ProfileToken = ''Profile_1'', cm_Velocity =
            Some \<lparr>PanTilt_x = - 0.7, PanTilt_y = 0, Zoom_x = 0\<rparr>\<rparr>,
          Stop \<lparr>st_ProfileToken = ''Profile_1'', st_PanTilt = Some True, st_Zoom = Some True\<rparr>]))"
proof -
  have i: "PTZController_init CameraConfig_default jammed_camera = Inr jammed_controller"
    by (simp add: PTZController_init_def open_session_def CameraConfig_default_def
      quiet_camera_def jammed_camera_def jammed_controller_def new_controller_def
      example_profile_def example_options_def session_calls_def read_limits_def seq_def
      read_pan_tilt_def read_zoom_def default_limits_def)
  have k: "PTZController_init_kb CameraConfig_default jammed_camera = Inr jammed_controller"
    by (simp add: PTZController_init_kb_def open_session_def CameraConfig_default_def
      quiet_camera_def jammed_camera_def jammed_controller_def new_controller_def
      example_profile_def example_options_def session_calls_def discover_kb_def
      default_limits_def)
  have q: "cam jammed_controller = jammed_camera"
    "raises jammed_camera = (\<lambda>tr c. case c of ContinuousMove r \<Rightarrow> Some Fault | _ \<Rightarrow> None)"
    "trace jammed_controller = session_calls"
    "request_continuous jammed_controller = \<lparr>cm_ProfileToken = ''Profile_1'', cm_Velocity = None\<rparr>"
    "request_stop jammed_controller =
       \<lparr>st_ProfileToken = ''Profile_1'', st_PanTilt = None, st_Zoom = None\<rparr>"
    "max_pan_speed jammed_controller = 0.7" "max_tilt_speed jammed_controller = 0.6"
    "max_zoom_speed jammed_controller = 0.4"
    by (simp_all add: jammed_controller_def new_controller_def jammed_camera_def quiet_camera_def
        example_profile_def)
  have c: "map_option (\<lambda>(r, s). (r, trace s)) (run_cli_loop [Line ''1''] jammed_controller) =
      Some (Inl Fault, session_calls @
         [ContinuousMove \<lparr>cm_ProfileToken = ''Profile_1'', cm_Velocity =
            Some \<lparr>PanTilt_x = - 0.35, PanTilt_y = 0, Zoom_x = 0\<rparr>\<rparr>])"
    by (simp add: strip_def is_space_def cli_choice_def ends_def seq_def continuous_move_def
        invoke_def q normalized_speed_def py_max_def py_min_def move_speed_def)
  have y: "key_of CHR ''a'' = ''a''"
    by (simp add: key_of_def lower_ascii_def)
  have b: "kb_key CHR ''a'' [] jammed_controller =
      Some ((Inl Fault, snd (continuous_move_kb (- 1) 0 0 jammed_controller)), 0)"
    by (simp add: kb_key_def y ends_def seq_def continuous_move_kb_def invoke_def q
        move_speed_kb_def)
  have d: "map_option (\<lambda>(r, s). (r, trace s))
       (run_keyboard_loop [Some CHR ''a''] [] jammed_controller) =
     Some (Inl Fault, session_calls @
         [ContinuousMove \<lparr>cm_ProfileToken = ''Profile_1'', cm_Velocity =
            Some \<lparr>PanTilt_x = - 0.7, PanTilt_y = 0, Zoom_x = 0\<rparr>\<rparr>,
          Stop \<lparr>st_ProfileToken = ''Profile_1'', st_PanTilt = Some True, st_Zoom = Some True\<rparr>])"
    by (simp add: run_keyboard_loop_def b stop_def continuous_move_kb_def invoke_def q
        normalized_speed_kb_def py_max_def py_min_def)
  show ?thesis
    using c d by (simp add: run_cli_def run_keyboard_def i k option.map_comp comp_def
        split: prod.splits) 
qed

section \<open>Discovery of the velocity limits\<close>

lemma limits_of_new_controller: "limits_of (new_controller c tr p l) = l"
  by (simp add: limits_of_def new_controller_def)

text \<open>\<^verbatim>\<open>ptz_control_with_keyboard.py\<close>: the test of lines 104-115 followed by the handler
  of line 123 yields the reported maxima for a well-formed response and the defaults for
  every other one.\<close>

lemma discover_kb_reported:
  "(case discover_kb opts of Inl e \<Rightarrow> default_limits | Inr l \<Rightarrow> l) =
   (case reported_maxima opts of None \<Rightarrow> default_limits | Some l \<Rightarrow> l)"
  by (simp add: discover_kb_def reported_maxima_def
      split: option.splits attr.splits list.splits)

text \<open>\<^verbatim>\<open>ptz_control_with_keyboard.py\<close>: once the session is open, the construction
  succeeds whatever the query does, short of an interrupt, and the limits are those of
  the claim.\<close>

lemma init_kb_limits:
  assumes "open_session config c = Inr (tr, p)"
  shows "PTZConfiguration_token p = None \<longrightarrow>
           (\<exists>s. PTZController_init_kb config c = Inr s \<and> limits_of s = default_limits)"
    and "PTZConfiguration_token p = Some ct \<longrightarrow>
         raises c tr (GetConfigurationOptions ct) = Some e \<longrightarrow> is_Exception e \<longrightarrow>
           (\<exists>s. PTZController_init_kb config c = Inr s \<and> limits_of s = default_limits)"
    and "PTZConfiguration_token p = Some ct \<longrightarrow>
         raises c tr (GetConfigurationOptions ct) = None \<longrightarrow>
           (\<exists>s. PTZController_init_kb config c = Inr s
              \<and> limits_of s = (case reported_maxima (options_reply c) of
                                 None \<Rightarrow> default_limits | Some l \<Rightarrow> l))"
  using assms discover_kb_reported [of "options_reply c"]
  by (auto simp: PTZController_init_kb_def limits_of_new_controller split: sum.splits)

text \<open>\<^verbatim>\<open>ptz_controller.py\<close>: an exception of the query, or a profile without PTZ
  configuration, ends the construction.\<close>

lemma init_query_raises:
  assumes "open_session config c = Inr (tr, p)"
  shows "PTZConfiguration_token p = None \<longrightarrow> PTZController_init config c = Inl AttributeError"
    and "PTZConfiguration_token p = Some ct \<longrightarrow>
         raises c tr (GetConfigurationOptions ct) = Some e \<longrightarrow>
           PTZController_init config c = Inl e"
  using assms by (simp_all add: PTZController_init_def)

text \<open>\<^verbatim>\<open>ptz_controller.py\<close>: when the query returns, a well-formed response gives the
  reported maxima, and a response that is \<^verbatim>\<open>None\<close> gives the defaults.\<close>

lemma read_limits_reported:
  "reported_maxima opts = Some l \<Longrightarrow> limits_of (read_limits opts s) = l"
  by (auto simp: reported_maxima_def read_limits_def seq_def read_pan_tilt_def read_zoom_def
      limits_of_def Let_def split: option.splits attr.splits list.splits)

lemma init_limits_returned:
  assumes "open_session config c = Inr (tr, p)"
    and "PTZConfiguration_token p = Some ct"
    and "raises c tr (GetConfigurationOptions ct) = None"
  shows "reported_maxima (options_reply c) = Some l \<longrightarrow>
           (\<exists>s. PTZController_init config c = Inr s \<and> limits_of s = l)"
    and "options_reply c = None \<longrightarrow>
           (\<exists>s. PTZController_init config c = Inr s \<and> limits_of s = default_limits)"
  using assms
  by (auto simp: PTZController_init_def read_limits_reported)
     (simp add: read_limits_def limits_of_new_controller)

text \<open>\<^verbatim>\<open>ptz_controller.py\<close> reads the two velocity spaces one after the other: a camera
  that reports no zoom space keeps its pan and tilt maxima. \<^verbatim>\<open>ptz_control_with_keyboard.py\<close>
  takes the three defaults.\<close>

lemma fixed_lens_limits:
  "PTZController_init CameraConfig_default fixed_lens_camera =
     Inr (new_controller fixed_lens_camera session_calls example_profile
            \<lparr>max_pan_speed = 0.7, max_tilt_speed = 0.6, max_zoom_speed = 0.5\<rparr>)"
  "PTZController_init_kb CameraConfig_default fixed_lens_camera =
     Inr (new_controller fixed_lens_camera session_calls example_profile default_limits)"
  by (simp_all add: PTZController_init_def PTZController_init_kb_def open_session_def
      CameraConfig_default_def quiet_camera_def fixed_lens_camera_def new_controller_def
      example_profile_def session_calls_def read_limits_def seq_def read_pan_tilt_def
      read_zoom_def discover_kb_def default_limits_def)

text \<open>
  C2. The claim holds for \<^verbatim>\<open>ptz_control_with_keyboard.py\<close> and fails for
  \<^verbatim>\<open>ptz_controller.py\<close>. With a camera whose \<^verbatim>\<open>GetConfigurationOptions\<close> raises, the
  construction of \<^verbatim>\<open>ptz_controller.py\<close> raises that exception, where the construction of
  \<^verbatim>\<open>ptz_control_with_keyboard.py\<close> succeeds with the three defaults.
\<close>

theorem init_query_failure_ends_construction:
  "PTZController_init CameraConfig_default mute_camera = Inl Fault
   \<and> PTZController_init_kb CameraConfig_default mute_camera =
       Inr (new_controller mute_camera session_calls example_profile default_limits)
   \<and> limits_of (new_controller mute_camera session_calls example_profile default_limits) =
       \<lparr>max_pan_speed = 0.5, max_tilt_speed = 0.5, max_zoom_speed = 0.5\<rparr>"
  by (simp add: PTZController_init_def PTZController_init_kb_def open_session_def
      CameraConfig_default_def quiet_camera_def mute_camera_def example_profile_def
      session_calls_def limits_of_new_controller default_limits_def)

section \<open>One profile token for the whole session\<close>

lemma session_on_invoke:
  "session_on t s \<Longrightarrow> target c = None \<or> target c = Some t \<Longrightarrow> session_on t (snd (invoke c s))"
  by (simp add: session_on_def snd_invoke request_tokens_def addressed_to_def)

lemma session_on_methods:
  assumes "session_on t s"
  shows "session_on t (snd (continuous_move pan tilt zoom s))"
    and "session_on t (snd (continuous_move_kb pan tilt zoom s))"
    and "session_on t (snd (stop pan_tilt zoom_axis s))"
    and "session_on t (snd (go_to_preset preset_token s))"
    and "session_on t (snd (set_preset name s))"
    and "session_on t (snd (set_preset_kb name s))"
    and "session_on t (snd (list_presets s))"
  using assms
  by (simp_all add: session_on_def request_tokens_def addressed_to_def continuous_move_kb_eq
      continuous_move_snd stop_snd go_to_preset_snd set_preset_frame set_preset_kb_snd
      list_presets_snd)

lemma session_on_seq:
  assumes "\<And>s. session_on t s \<Longrightarrow> session_on t (snd (m s))"
    and "\<And>s. session_on t s \<Longrightarrow> session_on t (snd (k s))"
    and "session_on t s"
  shows "session_on t (snd (seq m k s))"
  using assms by (simp add: snd_seq split: sum.splits)

lemma session_on_burst:
  assumes "session_on t s"
  shows "session_on t (snd (seq (continuous_move pan tilt zoom)
           (seq (invoke (Sleep d)) (stop pan_tilt zoom_axis)) s))"
  using assms
  by (intro session_on_seq session_on_methods session_on_invoke) simp_all

lemma session_on_cli_choice:
  assumes "session_on t s" and "cli_choice choice rest s = Some ((r, s'), n)"
  shows "session_on t s'"
proof -
  have b: "session_on t (snd (ends ctl (seq (continuous_move pan tilt zoom)
           (seq (invoke (Sleep d)) (stop pan_tilt zoom_axis)) s)))" for ctl pan tilt zoom d pan_tilt zoom_axis
    using assms(1) by (simp add: snd_ends session_on_burst)
  have m: "session_on t (snd (ends ctl (stop True True s)))"
    "session_on t (snd (ends ctl (list_presets s)))"
    "session_on t (snd (ends ctl (go_to_preset x s)))"
    "session_on t (snd (ends ctl (set_preset x s)))" for ctl x
    using assms(1) by (simp_all add: snd_ends session_on_methods)
  from assms(2) have "s' = s \<or> (\<exists>ctl pan tilt zoom d pan_tilt zoom_axis.
        s' = snd (ends ctl (seq (continuous_move pan tilt zoom)
           (seq (invoke (Sleep d)) (stop pan_tilt zoom_axis)) s)))
      \<or> (\<exists>ctl. s' = snd (ends ctl (stop True True s)))
      \<or> (\<exists>ctl. s' = snd (ends ctl (list_presets s)))
      \<or> (\<exists>ctl x. s' = snd (ends ctl (go_to_preset x s)))
      \<or> (\<exists>ctl x. s' = snd (ends ctl (set_preset x s)))"
    unfolding cli_choice_def
    by (simp split: if_splits list.splits sum.splits) (metis snd_conv)+
  with b m assms(1) show ?thesis
    by auto
qed

text \<open>Both loops keep the session on its token, however they end.\<close>

lemma session_on_run_cli_loop:
  "session_on t s \<Longrightarrow> run_cli_loop inputs s = Some (r, s') \<Longrightarrow> session_on t s'"
proof (induction inputs s arbitrary: r s' rule: run_cli_loop.induct)
  case (1 s)
  then show ?case by simp
next
  case (2 i rest s)
  note ok = \<open>session_on t s\<close> and run = \<open>run_cli_loop (i # rest) s = Some (r, s')\<close>
  show ?case
  proof (cases "input_line i")
    case (Inl e)
    with run have "s' = snd (stop True True s)"
      by (simp add: seq_def split: prod.splits sum.splits)
    with ok show ?thesis
      by (simp add: session_on_methods)
  next
    case line: (Inr l)
    show ?thesis
    proof (cases "cli_choice (strip l) rest s")
      case None
      with line run show ?thesis by simp
    next
      case (Some x)
      obtain b s1 n where "x = ((b, s1), n)"
        by (metis prod.exhaust)
      with Some have choice: "cli_choice (strip l) rest s = Some ((b, s1), n)"
        by simp
      with ok have s1: "session_on t s1"
        by (rule session_on_cli_choice)
      show ?thesis
      proof (cases b)
        case (Inl e)
        with line choice run have "s' = s1" by simp
        with s1 show ?thesis by simp
      next
        case (Inr ctl)
        show ?thesis
        proof (cases ctl)
          case Continue
          with line choice Inr run have next_run: "run_cli_loop (drop n rest) s1 = Some (r, s')"
            by simp
          from choice Inr Continue
          have "cli_choice (strip l) rest s = Some ((Inr Continue, s1), n)"
            by simp
          then show ?thesis
            by (rule "2.IH" [OF line _ refl refl refl refl s1 next_run])
        next
          case Break
          with line choice Inr run have "s' = snd (stop True True s1)"
            by auto
          with s1 show ?thesis by (simp add: session_on_methods)
        qed
      qed
    qed
  qed
qed

lemma session_on_kb_arrow:
  "session_on t s \<Longrightarrow> session_on t (snd (kb_arrow ch2 s))"
  by (simp add: kb_arrow_def continuous_move_kb_eq session_on_burst)

lemma session_on_kb_key:
  assumes "session_on t s" and "kb_key ch lines s = Some ((r, s'), n)"
  shows "session_on t s'"
proof -
  let ?s1 = "snd (stop True True s)"
  have s1: "session_on t ?s1"
    using assms(1) by (rule session_on_methods)
  have b: "session_on t (snd (ends ctl (seq (continuous_move pan tilt zoom)
           (seq (invoke (Sleep d)) (stop pan_tilt zoom_axis)) s)))" for ctl pan tilt zoom d pan_tilt zoom_axis
    using assms(1) by (simp add: snd_ends session_on_burst)
  have m: "session_on t (snd (ends ctl (stop True True s)))"
    "session_on t (snd (ends ctl (list_presets s)))"
    "session_on t (snd (ends ctl (go_to_preset x ?s1)))"
    "session_on t (snd (ends ctl (set_preset_kb x ?s1)))" for ctl x
    using assms(1) s1 by (simp_all add: snd_ends session_on_methods)
  from assms(2) have "s' = s \<or> s' = ?s1 \<or> (\<exists>ctl pan tilt zoom d pan_tilt zoom_axis.
        s' = snd (ends ctl (seq (continuous_move pan tilt zoom)
           (seq (invoke (Sleep d)) (stop pan_tilt zoom_axis)) s)))
      \<or> (\<exists>ctl. s' = snd (ends ctl (stop True True s)))
      \<or> (\<exists>ctl. s' = snd (ends ctl (list_presets s)))
      \<or> (\<exists>ctl x. s' = snd (ends ctl (go_to_preset x ?s1)))
      \<or> (\<exists>ctl x. s' = snd (ends ctl (set_preset_kb x ?s1)))"
    unfolding kb_key_def Let_def continuous_move_kb_eq
    by (simp split: if_splits list.splits sum.splits prod.splits) (metis snd_conv)+
  with b m s1 assms(1) show ?thesis
    by auto
qed

lemma session_on_kb_loop:
  "session_on t s \<Longrightarrow> kb_loop polls lines s = Some (r, s') \<Longrightarrow> session_on t s'"
proof (induction polls lines s arbitrary: r s' rule: kb_loop.induct)
  case (1 lines s)
  then show ?case by simp
next
  case (2 polls lines s)
  note ok = \<open>session_on t s\<close> and run = \<open>kb_loop (None # polls) lines s = Some (r, s')\<close>
  obtain x y where idle: "(x, y) = invoke (Sleep 0.01) s"
    by (metis prod.exhaust)
  then have "y = snd (invoke (Sleep 0.01) s)"
    by (metis snd_conv)
  with ok have y: "session_on t y"
    by (simp add: session_on_invoke)
  show ?case
  proof (cases x)
    case (Inl e)
    with idle [symmetric] run have "s' = y" by simp
    with y show ?thesis by simp
  next
    case (Inr u)
    with idle [symmetric] run have "kb_loop polls lines y = Some (r, s')" by simp
    with y show ?thesis
      by (rule "2.IH" [OF idle Inr])
  qed
next
  case (3 ch polls lines s)
  note ok = \<open>session_on t s\<close> and run = \<open>kb_loop (Some ch # polls) lines s = Some (r, s')\<close>
  show ?case
  proof (cases "ch = CHR 0xE0")
    case True
    show ?thesis
    proof (cases "getch polls")
      case None
      with True run show ?thesis by simp
    next
      case (Some x)
      obtain ch2 polls' where x: "(ch2, polls') = x"
        by (metis prod.exhaust)
      obtain xa ya where arrow: "(xa, ya) = kb_arrow ch2 s"
        by (metis prod.exhaust)
      then have "ya = snd (kb_arrow ch2 s)"
        by (metis snd_conv)
      with ok have ya: "session_on t ya"
        by (simp add: session_on_kb_arrow)
      show ?thesis
      proof (cases xa)
        case (Inl e)
        with True Some x [symmetric] arrow [symmetric] run have "s' = ya" by simp
        with ya show ?thesis by simp
      next
        case (Inr u)
        with True Some x [symmetric] arrow [symmetric] run
        have "kb_loop polls' lines ya = Some (r, s')" by simp
        with ya show ?thesis
          by (rule "3.IH"(1) [OF True Some x arrow Inr])
      qed
    qed
  next
    case False
    show ?thesis
    proof (cases "kb_key ch lines s")
      case None
      with False run show ?thesis by simp
    next
      case (Some x)
      obtain b s1 n where "x = ((b, s1), n)"
        by (metis prod.exhaust)
      with Some have key: "kb_key ch lines s = Some ((b, s1), n)"
        by simp
      with ok have s1: "session_on t s1"
        by (rule session_on_kb_key)
      show ?thesis
      proof (cases b)
        case (Inl e)
        with False key run have "s' = s1" by simp
        with s1 show ?thesis by simp
      next
        case (Inr ctl)
        show ?thesis
        proof (cases ctl)
          case Break
          with False key Inr run have "s' = s1" by simp
          with s1 show ?thesis by simp
        next
          case Continue
          obtain xb yb where idle: "(xb, yb) = invoke (Sleep 0.01) s1"
            by (metis prod.exhaust)
          then have "yb = snd (invoke (Sleep 0.01) s1)"
            by (metis snd_conv)
          with s1 have yb: "session_on t yb"
            by (simp add: session_on_invoke)
          from key Inr Continue
          have key': "kb_key ch lines s = Some ((Inr Continue, s1), n)"
            by simp
          show ?thesis
          proof (cases xb)
            case (Inl e)
            with False key' idle [symmetric] run have "s' = yb" by simp
            with yb show ?thesis by simp
          next
            case idle_ok: (Inr u)
            with False key' idle [symmetric] run
            have "kb_loop polls (drop n lines) yb = Some (r, s')" by simp
            with yb show ?thesis
              by (rule "3.IH"(2) [OF False key' refl refl refl refl idle idle_ok])
          qed
        qed
      qed
    qed
  qed
qed

lemma session_on_run_keyboard_loop:
  assumes "session_on t s" and "run_keyboard_loop polls lines s = Some (r, s')"
  shows "session_on t s'"
proof -
  from assms(2) obtain r'' s'' e where
    loop: "kb_loop polls lines s = Some (r'', s'')"
    and "(r, s') = stop True True s''
         \<or> (r, s') = (case stop True True s'' of
                        (Inl e', t) \<Rightarrow> (Inl e', t) | (Inr u, t) \<Rightarrow> (Inl e, t))"
    by (auto simp: run_keyboard_loop_def split: option.splits prod.splits sum.splits exn.splits)
  then have "s' = snd (stop True True s'')"
    by (auto split: prod.splits sum.splits)
  moreover from assms(1) loop have "session_on t s''"
    by (rule session_on_kb_loop)
  ultimately show ?thesis
    by (simp add: session_on_methods)
qed

text \<open>The construction opens the session on the token of the first profile.\<close>

lemma attempt_trace: "attempt c tr xs = Inr tr' \<Longrightarrow> tr' = tr @ xs"
  by (induction c tr xs rule: attempt.induct) (auto split: option.splits)

lemma open_session_calls:
  assumes "open_session config c = Inr (tr, p)"
  shows "addressed_to t tr"
proof -
  from assms obtain w tr1 where
    "attempt c []
       [ONVIFCamera (ip config) (port config) (username config) (password config) w,
        CreateMediaService, CreatePtzService, GetProfiles] = Inr tr1"
    and "attempt c tr1
       [CreateType ''ContinuousMove'', CreateType ''Stop'',
        CreateType ''GotoPreset'', CreateType ''SetPreset''] = Inr tr"
    by (auto simp: open_session_def simp del: attempt.simps split: sum.splits list.splits)
  then have "tr =
      [ONVIFCamera (ip config) (port config) (username config) (password config) w,
       CreateMediaService, CreatePtzService, GetProfiles,
       CreateType ''ContinuousMove'', CreateType ''Stop'',
       CreateType ''GotoPreset'', CreateType ''SetPreset'']"
    by (auto dest!: attempt_trace simp del: attempt.simps)
  then show ?thesis
    by (simp add: addressed_to_def)
qed

lemma init_session_on:
  "PTZController_init config c = Inr s \<Longrightarrow> session_on (token (profile s)) s"
  "PTZController_init_kb config c = Inr s \<Longrightarrow> session_on (token (profile s)) s"
  by (auto simp: PTZController_init_def PTZController_init_kb_def session_on_def
      read_limits_frame new_controller_tokens addressed_to_def
      dest: open_session_calls [unfolded addressed_to_def]
      split: sum.splits option.splits prod.splits if_splits)

text \<open>
  From the construction to the end of \<^verbatim>\<open>run_cli\<close> or \<^verbatim>\<open>run_keyboard\<close>, every request
  sent carries the token of the first profile the camera reported.
\<close>

lemma run_cli_session:
  assumes "run_cli inputs c = Some (Inr (r, s'))"
  shows "\<exists>p ps. profiles_reply c = p # ps \<and> session_on (token p) s'"
proof -
  from assms obtain s where i: "PTZController_init CameraConfig_default c = Inr s"
    and l: "run_cli_loop inputs s = Some (r, s')"
    by (auto simp: run_cli_def split: sum.splits)
  from i have "session_on (token (profile s)) s"
    by (rule init_session_on)
  then have "session_on (token (profile s)) s'"
    using l by (rule session_on_run_cli_loop)
  moreover from i obtain ps where "profiles_reply c = profile s # ps"
    by (auto simp: PTZController_init_def read_limits_frame new_controller_tokens
        dest: open_session_profile split: sum.splits option.splits prod.splits)
  ultimately show ?thesis
    by blast
qed

lemma run_keyboard_session:
  assumes "run_keyboard polls lines c = Some (Inr (r, s'))"
  shows "\<exists>p ps. profiles_reply c = p # ps \<and> session_on (token p) s'"
proof -
  from assms obtain s where i: "PTZController_init_kb CameraConfig_default c = Inr s"
    and l: "run_keyboard_loop polls lines s = Some (r, s')"
    by (auto simp: run_keyboard_def split: sum.splits)
  from i have "session_on (token (profile s)) s"
    by (rule init_session_on)
  then have "session_on (token (profile s)) s'"
    using l by (rule session_on_run_keyboard_loop)
  moreover from i obtain ps where "profiles_reply c = profile s # ps"
    by (auto simp: PTZController_init_kb_def new_controller_tokens
        dest: open_session_profile split: sum.splits option.splits prod.splits if_splits)
  ultimately show ?thesis
    by blast
qed

end
